theory Spec2Isabelle
  imports Main
begin

section \<open>Python values used by \<^verbatim>\<open>get_compound_info2.py\<close>\<close>

text \<open>
  A Python \<^verbatim>\<open>str\<close> is a sequence of Unicode code points, so it is modelled as a list
  of natural numbers; \<open>lit\<close> embeds the ASCII literals of the source.
\<close>

type_synonym pystr = "nat list"

definition lit :: "string \<Rightarrow> pystr" where
  "lit s = map of_char s"

text \<open>
  The value \<^verbatim>\<open>response.json()\<close> returns. A float is carried by its \<^verbatim>\<open>repr\<close>,
  the only thing the program can observe of it; a \<^verbatim>\<open>dict\<close> is its items in insertion
  order (all keys of a parsed JSON object are strings).
\<close>

datatype jvalue =
    JNull
  | JBool bool
  | JInt int
  | JFloat pystr
  | JStr pystr
  | JList "jvalue list"
  | JDict "(pystr \<times> jvalue) list"

text \<open>
  The exceptions the program can meet. \<open>RequestException\<close> stands for every subclass
  of \<^verbatim>\<open>requests.exceptions.RequestException\<close> (connection errors, timeouts,
  \<^verbatim>\<open>HTTPError\<close>, the JSON decoding error of current versions of the library);
  \<open>OtherException\<close> is any further subclass of \<^verbatim>\<open>Exception\<close>.
\<close>

datatype py_error =
    RequestException
  | KeyError
  | TypeError
  | IndexError
  | AttributeError
  | UnicodeEncodeError
  | OtherException

text \<open>
  What the program reads of a \<^verbatim>\<open>requests.Response\<close>: the status code, the decoded
  body \<^verbatim>\<open>response.text\<close>, and what \<^verbatim>\<open>response.json()\<close> does (it raises on a body
  that is not JSON).
\<close>

record response =
  status_code :: int
  resp_text :: pystr
  resp_json :: "py_error + jvalue"

datatype http_outcome = Raises py_error | Returns response

text \<open>
  Everything outside the program. \<open>http_get w earlier url\<close> is what
  \<^verbatim>\<open>requests.get(url, timeout=10)\<close> does when the calls \<open>earlier\<close> have been made
  before it. \<open>uni_digit\<close> and \<open>uni_space\<close> are the interpreter's Unicode tables for the code
  points from 128 on, \<open>py_repr\<close> is \<^verbatim>\<open>repr\<close> on lists and dicts, and
  \<open>stdout_encodes\<close> tells which code points from 128 on the encoding of
  \<^verbatim>\<open>sys.stdout\<close>, with its error handler, can write.
\<close>

record world =
  http_get :: "pystr list \<Rightarrow> pystr \<Rightarrow> http_outcome"
  uni_digit :: "nat \<Rightarrow> bool"
  uni_space :: "nat \<Rightarrow> bool"
  py_repr :: "jvalue \<Rightarrow> pystr"
  stdout_encodes :: "nat \<Rightarrow> bool"

datatype log_entry =
    Request_failed pystr py_error
  | Unexpected_error pystr py_error

text \<open>
  The effects of a run: the URLs passed to \<^verbatim>\<open>requests.get\<close>, in order, and the lines
  written by \<^verbatim>\<open>logging.error\<close>.
\<close>

record state =
  requests_made :: "pystr list"
  logged :: "log_entry list"

definition init_state :: state where
  "init_state = \<lparr>requests_made = [], logged = []\<rparr>"


section \<open>String operations\<close>

text \<open>\<^verbatim>\<open>str.isdigit\<close> and \<^verbatim>\<open>str.isspace\<close> on one code point.\<close>

definition isdigit_cp :: "world \<Rightarrow> nat \<Rightarrow> bool" where
  "isdigit_cp w c = (if c < 128 then 48 \<le> c \<and> c \<le> 57 else uni_digit w c)"

definition isspace_cp :: "world \<Rightarrow> nat \<Rightarrow> bool" where
  "isspace_cp w c =
     (if c < 128 then (9 \<le> c \<and> c \<le> 13) \<or> (28 \<le> c \<and> c \<le> 32) else uni_space w c)"

text \<open>\<^verbatim>\<open>s.isdigit()\<close>: every character is a digit and there is at least one.\<close>

definition isdigit :: "world \<Rightarrow> pystr \<Rightarrow> bool" where
  "isdigit w s = (s \<noteq> [] \<and> list_all (isdigit_cp w) s)"

text \<open>\<^verbatim>\<open>s.replace('-', '')\<close>.\<close>

definition replace_hyphen :: "pystr \<Rightarrow> pystr" where
  "replace_hyphen s = filter (\<lambda>c. c \<noteq> 45) s"

text \<open>\<^verbatim>\<open>s.strip()\<close>: leading and trailing whitespace removed.\<close>

definition strip :: "world \<Rightarrow> pystr \<Rightarrow> pystr" where
  "strip w s = rev (dropWhile (isspace_cp w) (rev (dropWhile (isspace_cp w) s)))"

text \<open>\<^verbatim>\<open>str\<close> of an integer, in decimal.\<close>

fun str_nat :: "nat \<Rightarrow> pystr" where
  "str_nat n = (if n < 10 then [48 + n] else str_nat (n div 10) @ [48 + n mod 10])"

declare str_nat.simps [simp del]

definition str_int :: "int \<Rightarrow> pystr" where
  "str_int i = (if i < 0 then 45 # str_nat (nat (- i)) else str_nat (nat i))"

text \<open>What an f-string puts for \<^verbatim>\<open>{v}\<close>, that is \<^verbatim>\<open>str(v)\<close>.\<close>

fun py_str :: "world \<Rightarrow> jvalue \<Rightarrow> pystr" where
  "py_str w JNull = lit ''None''"
| "py_str w (JBool b) = (if b then lit ''True'' else lit ''False'')"
| "py_str w (JInt i) = str_int i"
| "py_str w (JFloat r) = r"
| "py_str w (JStr s) = s"
| "py_str w (JList xs) = py_repr w (JList xs)"
| "py_str w (JDict kvs) = py_repr w (JDict kvs)"


section \<open>Subscripts and iteration on parsed JSON\<close>

text \<open>\<^verbatim>\<open>v[k]\<close> for a string key: only a dict takes it.\<close>

fun getitem :: "jvalue \<Rightarrow> pystr \<Rightarrow> py_error + jvalue" where
  "getitem (JDict kvs) k = (case map_of kvs k of None \<Rightarrow> Inl KeyError | Some v \<Rightarrow> Inr v)"
| "getitem v k = Inl TypeError"

text \<open>
  \<^verbatim>\<open>v[0]\<close>: the first element of a list, the first character of a string; a dict parsed
  from JSON has no key \<^verbatim>\<open>0\<close>.
\<close>

fun getitem0 :: "jvalue \<Rightarrow> py_error + jvalue" where
  "getitem0 (JList []) = Inl IndexError"
| "getitem0 (JList (x # xs)) = Inr x"
| "getitem0 (JStr []) = Inl IndexError"
| "getitem0 (JStr (c # cs)) = Inr (JStr [c])"
| "getitem0 (JDict kvs) = Inl KeyError"
| "getitem0 v = Inl TypeError"

text \<open>
  \<^verbatim>\<open>for s in v\<close>: the elements of a list, the characters of a string, the keys of a
  dict; nothing else is iterable.
\<close>

fun py_iter :: "jvalue \<Rightarrow> py_error + jvalue list" where
  "py_iter (JList xs) = Inr xs"
| "py_iter (JStr s) = Inr (map (\<lambda>c. JStr [c]) s)"
| "py_iter (JDict kvs) = Inr (map (\<lambda>kv. JStr (fst kv)) kvs)"
| "py_iter v = Inl TypeError"

definition and_then :: "'e + 'a \<Rightarrow> ('a \<Rightarrow> 'e + 'b) \<Rightarrow> 'e + 'b" where
  "and_then r f = (case r of Inl e \<Rightarrow> Inl e | Inr v \<Rightarrow> f v)"


section \<open>The library calls\<close>

definition requests_get :: "world \<Rightarrow> pystr \<Rightarrow> state \<Rightarrow> (py_error + response) \<times> state" where
  "requests_get w url st =
     (case http_get w (requests_made st) url of
        Raises e \<Rightarrow> Inl e
      | Returns r \<Rightarrow> Inr r,
      st\<lparr>requests_made := requests_made st @ [url]\<rparr>)"

text \<open>\<^verbatim>\<open>response.raise_for_status()\<close> raises \<^verbatim>\<open>HTTPError\<close> on a 4xx or 5xx status.\<close>

definition raise_for_status :: "response \<Rightarrow> py_error + unit" where
  "raise_for_status r =
     (if 400 \<le> status_code r \<and> status_code r < 600 then Inl RequestException else Inr ())"


section \<open>\<^verbatim>\<open>get_compound_info\<close>\<close>

definition base_url :: pystr where
  "base_url = lit ''https://pubchem.ncbi.nlm.nih.gov/rest/pug''"

definition not_found :: pystr where
  "not_found = lit ''Not found''"

text \<open>The string \<^verbatim>\<open>"Not found\tNot found\tNot found"\<close>; code point 9 is the tab.\<close>

definition fallback :: pystr where
  "fallback = not_found @ [9] @ not_found @ [9] @ not_found"

definition cid_url :: "pystr \<Rightarrow> pystr" where
  "cid_url compound_name = base_url @ lit ''/compound/name/'' @ compound_name @ lit ''/cids/JSON''"

definition synonyms_url :: "world \<Rightarrow> jvalue \<Rightarrow> pystr" where
  "synonyms_url w cid = base_url @ lit ''/compound/cid/'' @ py_str w cid @ lit ''/synonyms/JSON''"

definition iupac_url :: "world \<Rightarrow> jvalue \<Rightarrow> pystr" where
  "iupac_url w cid =
     base_url @ lit ''/compound/cid/'' @ py_str w cid @ lit ''/property/IUPACName/TXT''"

definition smiles_url :: "world \<Rightarrow> jvalue \<Rightarrow> pystr" where
  "smiles_url w cid =
     base_url @ lit ''/compound/cid/'' @ py_str w cid @ lit ''/property/IsomericSMILES/TXT''"

text \<open>Line 44: \<^verbatim>\<open>data['IdentifierList']['CID'][0]\<close>.\<close>

definition first_cid :: "jvalue \<Rightarrow> py_error + jvalue" where
  "first_cid data =
     and_then (getitem data (lit ''IdentifierList'')) (\<lambda>idl.
     and_then (getitem idl (lit ''CID'')) getitem0)"

text \<open>Lines 39 to 44, \<^verbatim>\<open># Get CID by name\<close>.\<close>

definition get_cid :: "world \<Rightarrow> pystr \<Rightarrow> state \<Rightarrow> (py_error + jvalue) \<times> state" where
  "get_cid w compound_name st =
     (case requests_get w (cid_url compound_name) st of
        (Inl e, st1) \<Rightarrow> (Inl e, st1)
      | (Inr response, st1) \<Rightarrow>
          (and_then (raise_for_status response) (\<lambda>_.
           and_then (resp_json response) first_cid), st1))"

text \<open>Line 50: \<^verbatim>\<open>response.json()['InformationList']['Information'][0]['Synonym']\<close>.\<close>

definition synonym_field :: "jvalue \<Rightarrow> py_error + jvalue" where
  "synonym_field data =
     and_then (getitem data (lit ''InformationList'')) (\<lambda>il.
     and_then (getitem il (lit ''Information'')) (\<lambda>info.
     and_then (getitem0 info) (\<lambda>first.
     getitem first (lit ''Synonym''))))"

text \<open>
  Line 51: \<^verbatim>\<open>next((s for s in synonyms if s.replace('-', '').isdigit()), 'Not found')\<close>.
  The generator stops at the first match, so later elements are never looked at; an
  element met before it that is not a string has no \<^verbatim>\<open>replace\<close>.
\<close>

fun next_cas :: "world \<Rightarrow> jvalue list \<Rightarrow> py_error + pystr" where
  "next_cas w [] = Inr not_found"
| "next_cas w (JStr s # rest) =
     (if isdigit w (replace_hyphen s) then Inr s else next_cas w rest)"
| "next_cas w (v # rest) = Inl AttributeError"

text \<open>Lines 46 to 51, \<^verbatim>\<open># Get CAS from synonyms\<close>.\<close>

definition get_cas :: "world \<Rightarrow> jvalue \<Rightarrow> state \<Rightarrow> (py_error + pystr) \<times> state" where
  "get_cas w cid st =
     (case requests_get w (synonyms_url w cid) st of
        (Inl e, st1) \<Rightarrow> (Inl e, st1)
      | (Inr response, st1) \<Rightarrow>
          (and_then (raise_for_status response) (\<lambda>_.
           and_then (resp_json response) (\<lambda>data.
           and_then (synonym_field data) (\<lambda>synonyms.
           and_then (py_iter synonyms) (next_cas w)))), st1))"

text \<open>
  Lines 55 and 59: \<^verbatim>\<open>requests.get(url, timeout=10).text.strip()\<close>, with no look at the
  status.
\<close>

definition get_text :: "world \<Rightarrow> pystr \<Rightarrow> state \<Rightarrow> (py_error + pystr) \<times> state" where
  "get_text w url st =
     (case requests_get w url st of
        (Inl e, st1) \<Rightarrow> (Inl e, st1)
      | (Inr response, st1) \<Rightarrow> (Inr (strip w (resp_text response)), st1))"

text \<open>The body of the \<^verbatim>\<open>try\<close>, lines 39 to 61.\<close>

definition try_body :: "world \<Rightarrow> pystr \<Rightarrow> state \<Rightarrow> (py_error + pystr) \<times> state" where
  "try_body w compound_name st =
     (case get_cid w compound_name st of
        (Inl e, st1) \<Rightarrow> (Inl e, st1)
      | (Inr cid, st1) \<Rightarrow>
     (case get_cas w cid st1 of
        (Inl e, st2) \<Rightarrow> (Inl e, st2)
      | (Inr cas, st2) \<Rightarrow>
     (case get_text w (iupac_url w cid) st2 of
        (Inl e, st3) \<Rightarrow> (Inl e, st3)
      | (Inr iupac, st3) \<Rightarrow>
     (case get_text w (smiles_url w cid) st3 of
        (Inl e, st4) \<Rightarrow> (Inl e, st4)
      | (Inr smiles, st4) \<Rightarrow> (Inr (cas @ [9] @ iupac @ [9] @ smiles), st4)))))"

text \<open>
  The two handlers, lines 62 to 67: the first takes the exceptions of the library, the
  second every other \<^verbatim>\<open>Exception\<close>; both log and return the same string.
\<close>

definition get_compound_info :: "world \<Rightarrow> pystr \<Rightarrow> state \<Rightarrow> pystr \<times> state" where
  "get_compound_info w compound_name st =
     (case try_body w compound_name st of
        (Inr s, st1) \<Rightarrow> (s, st1)
      | (Inl e, st1) \<Rightarrow>
          (if e = RequestException
           then (fallback, st1\<lparr>logged := logged st1 @ [Request_failed compound_name e]\<rparr>)
           else (fallback, st1\<lparr>logged := logged st1 @ [Unexpected_error compound_name e]\<rparr>)))"


section \<open>The script\<close>

record run =
  stdout :: pystr
  exit_code :: int
  final :: state

definition usage :: pystr where
  "usage = lit ''Usage: python get_compound_info2.py <compound_name>''"

text \<open>
  \<^verbatim>\<open>print(s)\<close> writes \<open>s\<close> and a line feed (code point 10) to standard output. The
  text is encoded first: when a character of \<open>s\<close> has no encoding there,
  \<^verbatim>\<open>UnicodeEncodeError\<close> is raised and nothing is written. The encodings of standard
  output all write ASCII.
\<close>

definition encodable :: "world \<Rightarrow> nat \<Rightarrow> bool" where
  "encodable w c = (c < 128 \<or> stdout_encodes w c)"

definition py_print :: "world \<Rightarrow> pystr \<Rightarrow> py_error + pystr" where
  "py_print w s = (if list_all (encodable w) s then Inr (s @ [10]) else Inl UnicodeEncodeError)"

text \<open>
  Lines 69 to 73. \<open>argv\<close> is \<^verbatim>\<open>sys.argv\<close>, the script's name first. The two calls
  of \<^verbatim>\<open>print\<close> are outside every \<^verbatim>\<open>try\<close>: an exception there ends the process
  with exit code 1.
\<close>

definition main :: "world \<Rightarrow> pystr list \<Rightarrow> run" where
  "main w argv =
     (if length argv < 2
      then (case py_print w usage of
              Inl e \<Rightarrow> \<lparr>stdout = [], exit_code = 1, final = init_state\<rparr>
            | Inr out \<Rightarrow> \<lparr>stdout = out, exit_code = 1, final = init_state\<rparr>)
      else (case get_compound_info w (argv ! 1) init_state of
              (s, st) \<Rightarrow>
                (case py_print w s of
                   Inl e \<Rightarrow> \<lparr>stdout = [], exit_code = 1, final = st\<rparr>
                 | Inr out \<Rightarrow> \<lparr>stdout = out, exit_code = 0, final = st\<rparr>)))"

text \<open>
  What the claims below speak of: the state after some further calls of
  \<^verbatim>\<open>requests.get\<close>, and the fields of a line, cut at a separator as
  \<^verbatim>\<open>line.split(sep)\<close> cuts them.
\<close>

definition sent :: "state \<Rightarrow> pystr list \<Rightarrow> state" where
  "sent st urls = st\<lparr>requests_made := requests_made st @ urls\<rparr>"

fun split_on :: "nat \<Rightarrow> pystr \<Rightarrow> pystr list" where
  "split_on sep [] = [[]]"
| "split_on sep (c # cs) =
     (if c = sep then [] # split_on sep cs
      else (case split_on sep cs of [] \<Rightarrow> [[c]] | f # fs \<Rightarrow> (c # f) # fs))"

text \<open>
  The value a parsed response holds at \<^verbatim>\<open>['IdentifierList']['CID']\<close>, when both keys
  are there, and the first entry such a value has: the first element of a list that is
  not empty, the first character of a string that is not empty.
\<close>

definition cid_entry :: "jvalue \<Rightarrow> jvalue option" where
  "cid_entry data =
     (case data of
        JDict kvs \<Rightarrow>
          (case map_of kvs (lit ''IdentifierList'') of
             Some (JDict kvs') \<Rightarrow> map_of kvs' (lit ''CID'')
           | _ \<Rightarrow> None)
      | _ \<Rightarrow> None)"

fun first_entry :: "jvalue \<Rightarrow> jvalue option" where
  "first_entry (JList (x # xs)) = Some x"
| "first_entry (JStr (c # cs)) = Some (JStr [c])"
| "first_entry v = None"


section \<open>Some services\<close>

text \<open>
  Concrete behaviours of the remote service, on which the theorems are instantiated. A
  service is a table from URL to outcome; a URL that is not in the table cannot be
  reached. The tables have no digit and no space beyond ASCII, and standard output is
  UTF-8, which writes every code point but the surrogates.
\<close>

definition serving :: "(pystr \<times> http_outcome) list \<Rightarrow> world" where
  "serving table =
     \<lparr>http_get = (\<lambda>earlier url. case map_of table url of
                                 None \<Rightarrow> Raises RequestException
                               | Some outcome \<Rightarrow> outcome),
      uni_digit = (\<lambda>c. False), uni_space = (\<lambda>c. False), py_repr = (\<lambda>v. []),
      stdout_encodes = (\<lambda>c. c < 55296 \<or> (57343 < c \<and> c < 1114112))\<rparr>"

definition unreachable_world :: world where
  "unreachable_world = serving []"

text \<open>A JSON response with status 200, and a plain-text response.\<close>

definition ok_json :: "pystr \<Rightarrow> jvalue \<Rightarrow> response" where
  "ok_json body v = \<lparr>status_code = 200, resp_text = body, resp_json = Inr v\<rparr>"

definition plain :: "int \<Rightarrow> pystr \<Rightarrow> response" where
  "plain code body =
     \<lparr>status_code = code, resp_text = body, resp_json = Inl RequestException\<rparr>"

text \<open>A name between double quotes (code point 34), as JSON writes it.\<close>

definition dq :: "string \<Rightarrow> pystr" where
  "dq s = [34] @ lit s @ [34]"

definition cids_702 :: jvalue where
  "cids_702 = JDict [(lit ''IdentifierList'', JDict [(lit ''CID'', JList [JInt 702])])]"

definition cids_response :: response where
  "cids_response =
     ok_json (lit ''{'' @ dq ''IdentifierList'' @ lit '': {'' @ dq ''CID'' @ lit '': [702]}}'')
       cids_702"

definition synonyms_702 :: "pystr list \<Rightarrow> jvalue" where
  "synonyms_702 ss =
     JDict [(lit ''InformationList'', JDict [(lit ''Information'',
       JList [JDict [(lit ''CID'', JInt 702), (lit ''Synonym'', JList (map JStr ss))]])])]"

definition synonyms_body :: "pystr \<Rightarrow> pystr" where
  "synonyms_body names =
     lit ''{'' @ dq ''InformationList'' @ lit '': {'' @ dq ''Information'' @ lit '': [{'' @
     dq ''CID'' @ lit '': 702, '' @ dq ''Synonym'' @ lit '': ['' @ names @ lit '']}]}}''"

definition synonyms_with_cas :: response where
  "synonyms_with_cas =
     ok_json (synonyms_body (dq ''ethanol'' @ lit '', '' @ dq ''64-17-5'' @ lit '', '' @
                             dq ''ethyl alcohol''))
       (synonyms_702 [lit ''ethanol'', lit ''64-17-5'', lit ''ethyl alcohol''])"

definition synonyms_without_cas :: response where
  "synonyms_without_cas =
     ok_json (synonyms_body (dq ''ethanol'' @ lit '', '' @ dq ''ethyl alcohol''))
       (synonyms_702 [lit ''ethanol'', lit ''ethyl alcohol''])"

text \<open>
  The service for the name \<^verbatim>\<open>ethanol\<close>, whose identifier is 702, with the responses
  of the last three endpoints left open.
\<close>

definition ethanol_serving :: "response \<Rightarrow> response \<Rightarrow> response \<Rightarrow> world" where
  "ethanol_serving r2 r3 r4 = serving
     [(lit ''https://pubchem.ncbi.nlm.nih.gov/rest/pug/compound/name/ethanol/cids/JSON'',
         Returns cids_response),
      (lit ''https://pubchem.ncbi.nlm.nih.gov/rest/pug/compound/cid/702/synonyms/JSON'',
         Returns r2),
      (lit ''https://pubchem.ncbi.nlm.nih.gov/rest/pug/compound/cid/702/property/IUPACName/TXT'',
         Returns r3),
      (lit ''https://pubchem.ncbi.nlm.nih.gov/rest/pug/compound/cid/702/property/IsomericSMILES/TXT'',
         Returns r4)]"

definition ethanol_world :: world where
  "ethanol_world =
     ethanol_serving synonyms_with_cas
       (plain 200 (lit ''ethanol'' @ [10])) (plain 200 (lit ''CCO'' @ [10]))"

text \<open>No synonym is a registry number.\<close>

definition no_cas_world :: world where
  "no_cas_world =
     ethanol_serving synonyms_without_cas
       (plain 200 (lit ''ethanol'' @ [10])) (plain 200 (lit ''CCO'' @ [10]))"

text \<open>The third endpoint answers with status 503 and an error text.\<close>

definition iupac_503_world :: world where
  "iupac_503_world =
     ethanol_serving synonyms_with_cas
       (plain 503 (lit ''Status: 503'' @ [10])) (plain 200 (lit ''CCO'' @ [10]))"

text \<open>The third endpoint answers with status 200 and an empty line.\<close>

definition blank_iupac_world :: world where
  "blank_iupac_world =
     ethanol_serving synonyms_with_cas (plain 200 [10]) (plain 200 (lit ''CCO'' @ [10]))"

text \<open>The third endpoint answers with a tab, or a line feed, inside its text.\<close>

definition tab_iupac_world :: world where
  "tab_iupac_world =
     ethanol_serving synonyms_with_cas
       (plain 200 (lit ''eth'' @ [9] @ lit ''anol'' @ [10])) (plain 200 (lit ''CCO'' @ [10]))"

definition two_line_iupac_world :: world where
  "two_line_iupac_world =
     ethanol_serving synonyms_with_cas
       (plain 200 (lit ''eth'' @ [10] @ lit ''anol'' @ [10])) (plain 200 (lit ''CCO'' @ [10]))"

text \<open>The third endpoint answers with a text that decodes to a lone surrogate.\<close>

definition surrogate_iupac_world :: world where
  "surrogate_iupac_world =
     ethanol_serving synonyms_with_cas
       (plain 200 (lit ''eth'' @ [55296] @ [10])) (plain 200 (lit ''CCO'' @ [10]))"

text \<open>
  Services that answer the first request only: with status 503, with a page that is not
  JSON, with JSON that has no identifier list, and with an empty identifier list.
\<close>

definition name_serving :: "response \<Rightarrow> world" where
  "name_serving r1 = serving
     [(lit ''https://pubchem.ncbi.nlm.nih.gov/rest/pug/compound/name/ethanol/cids/JSON'',
         Returns r1)]"

definition busy_response :: response where
  "busy_response = plain 503 (lit ''Status: 503'' @ [10])"

definition html_response :: response where
  "html_response = plain 200 (lit ''<html><body>Maintenance</body></html>'')"

definition fault_response :: response where
  "fault_response =
     ok_json (lit ''{'' @ dq ''Fault'' @ lit '': {'' @ dq ''Code'' @ lit '': '' @
              dq ''PUGREST.NotFound'' @ lit ''}}'')
       (JDict [(lit ''Fault'', JDict [(lit ''Code'', JStr (lit ''PUGREST.NotFound''))])])"

definition no_cids_response :: response where
  "no_cids_response =
     ok_json (lit ''{'' @ dq ''IdentifierList'' @ lit '': {'' @ dq ''CID'' @ lit '': []}}'')
       (JDict [(lit ''IdentifierList'', JDict [(lit ''CID'', JList [])])])"

text \<open>
  A service whose first answer gives the identifier as the string \<^verbatim>\<open>"702"\<close> in place
  of a list, and that knows the compound 7.
\<close>

definition cid_string_response :: response where
  "cid_string_response =
     ok_json (lit ''{'' @ dq ''IdentifierList'' @ lit '': {'' @ dq ''CID'' @ lit '': '' @
              dq ''702'' @ lit ''}}'')
       (JDict [(lit ''IdentifierList'', JDict [(lit ''CID'', JStr (lit ''702''))])])"

definition synonyms_7_data :: jvalue where
  "synonyms_7_data =
     JDict [(lit ''InformationList'', JDict [(lit ''Information'',
       JList [JDict [(lit ''CID'', JInt 7),
                     (lit ''Synonym'', JList [JStr (lit ''formalin''), JStr (lit ''50-00-0'')])]])])]"

definition synonyms_7 :: response where
  "synonyms_7 =
     ok_json (lit ''{'' @ dq ''InformationList'' @ lit '': {'' @ dq ''Information'' @ lit '': [{'' @
              dq ''CID'' @ lit '': 7, '' @ dq ''Synonym'' @ lit '': ['' @ dq ''formalin'' @
              lit '', '' @ dq ''50-00-0'' @ lit '']}]}}'')
       synonyms_7_data"

definition cid_string_world :: world where
  "cid_string_world = serving
     [(lit ''https://pubchem.ncbi.nlm.nih.gov/rest/pug/compound/name/ethanol/cids/JSON'',
         Returns cid_string_response),
      (lit ''https://pubchem.ncbi.nlm.nih.gov/rest/pug/compound/cid/7/synonyms/JSON'',
         Returns synonyms_7),
      (lit ''https://pubchem.ncbi.nlm.nih.gov/rest/pug/compound/cid/7/property/IUPACName/TXT'',
         Returns (plain 200 (lit ''formaldehyde'' @ [10]))),
      (lit ''https://pubchem.ncbi.nlm.nih.gov/rest/pug/compound/cid/7/property/IsomericSMILES/TXT'',
         Returns (plain 200 (lit ''C=O'' @ [10])))]"

definition script :: pystr where
  "script = lit ''get_compound_info2.py''"


section \<open>The steps of the chain\<close>

lemma sent_sent: "sent (sent st xs) ys = sent st (xs @ ys)"
  by (simp add: sent_def)

lemma sent_fields [simp]:
  "requests_made (sent st xs) = requests_made st @ xs" "logged (sent st xs) = logged st"
  by (simp_all add: sent_def)

lemma requests_get_eq:
  "requests_get w url st =
     (case http_get w (requests_made st) url of Raises e \<Rightarrow> Inl e | Returns r \<Rightarrow> Inr r,
      sent st [url])"
  by (simp add: requests_get_def sent_def)

text \<open>Each step makes exactly one request, whatever comes of it.\<close>

lemma snd_get_cid: "snd (get_cid w n st) = sent st [cid_url n]"
  by (simp add: get_cid_def requests_get_eq split: sum.splits http_outcome.splits)

lemma snd_get_cas: "snd (get_cas w cid st) = sent st [synonyms_url w cid]"
  by (simp add: get_cas_def requests_get_eq split: sum.splits http_outcome.splits)

lemma get_text_eq:
  "get_text w url st =
     (case http_get w (requests_made st) url of
        Raises e \<Rightarrow> Inl e
      | Returns r \<Rightarrow> Inr (strip w (resp_text r)),
      sent st [url])"
  by (simp add: get_text_def requests_get_eq split: http_outcome.splits)

lemma get_cid_pair: "get_cid w n st = (fst (get_cid w n st), sent st [cid_url n])"
  by (metis prod.collapse snd_get_cid)

lemma get_cas_pair: "get_cas w cid st = (fst (get_cas w cid st), sent st [synonyms_url w cid])"
  by (metis prod.collapse snd_get_cas)

text \<open>How the first step fails, and what it returns when it does not.\<close>

lemma get_cid_raises:
  "http_get w (requests_made st) (cid_url n) = Raises e \<Longrightarrow> fst (get_cid w n st) = Inl e"
  by (simp add: get_cid_def requests_get_def)

lemma get_cid_error_status:
  "http_get w (requests_made st) (cid_url n) = Returns r \<Longrightarrow> 400 \<le> status_code r \<Longrightarrow>
   status_code r < 600 \<Longrightarrow> fst (get_cid w n st) = Inl RequestException"
  by (simp add: get_cid_def requests_get_def raise_for_status_def and_then_def)

lemma get_cid_returned:
  "http_get w (requests_made st) (cid_url n) = Returns r \<Longrightarrow> raise_for_status r = Inr () \<Longrightarrow>
   fst (get_cid w n st) = and_then (resp_json r) first_cid"
  by (simp add: get_cid_def requests_get_def and_then_def)

lemma get_cid_bad_json:
  "http_get w (requests_made st) (cid_url n) = Returns r \<Longrightarrow> raise_for_status r = Inr () \<Longrightarrow>
   resp_json r = Inl e \<Longrightarrow> fst (get_cid w n st) = Inl e"
  by (simp add: get_cid_def requests_get_def and_then_def)

lemma first_cid_no_list: "getitem data (lit ''IdentifierList'') = Inl e \<Longrightarrow> first_cid data = Inl e"
  by (simp add: first_cid_def and_then_def)

lemma first_cid_list:
  "getitem data (lit ''IdentifierList'') = Inr idl \<Longrightarrow>
   getitem idl (lit ''CID'') = Inr (JList (c # cs)) \<Longrightarrow> first_cid data = Inr c"
  by (simp add: first_cid_def and_then_def)

lemma first_cid_empty:
  "getitem data (lit ''IdentifierList'') = Inr idl \<Longrightarrow>
   getitem idl (lit ''CID'') = Inr (JList []) \<Longrightarrow> first_cid data = Inl IndexError"
  by (simp add: first_cid_def and_then_def)

text \<open>Line 44 reads the first entry of the value at \<^verbatim>\<open>['IdentifierList']['CID']\<close>.\<close>

lemma first_entry_getitem0: "first_entry v = Some c \<Longrightarrow> getitem0 v = Inr c"
  by (induction v rule: first_entry.induct) simp_all

lemma no_first_entry_getitem0: "first_entry v = None \<Longrightarrow> \<exists>e. getitem0 v = Inl e"
  by (induction v rule: first_entry.induct) simp_all

lemma first_cid_entry: "cid_entry data = Some v \<Longrightarrow> first_cid data = getitem0 v"
  by (auto simp: cid_entry_def first_cid_def and_then_def split: jvalue.splits option.splits)

lemma first_cid_no_entry: "cid_entry data = None \<Longrightarrow> \<exists>e. first_cid data = Inl e"
  by (cases data) (auto simp: cid_entry_def first_cid_def and_then_def
      split: jvalue.splits option.splits)

lemma get_cid_unreadable:
  assumes "http_get w (requests_made st) (cid_url n) = Returns r"
    and "and_then (resp_json r) first_cid = Inl e"
  shows "\<exists>e'. fst (get_cid w n st) = Inl e'"
  using assms by (simp add: get_cid_def requests_get_def and_then_def split: sum.splits)

text \<open>The second step.\<close>

lemma get_cas_error_status:
  "http_get w (requests_made st) (synonyms_url w cid) = Returns r \<Longrightarrow> 400 \<le> status_code r \<Longrightarrow>
   status_code r < 600 \<Longrightarrow> fst (get_cas w cid st) = Inl RequestException"
  by (simp add: get_cas_def requests_get_def raise_for_status_def and_then_def)

lemma get_cas_returned:
  "http_get w (requests_made st) (synonyms_url w cid) = Returns r \<Longrightarrow>
   raise_for_status r = Inr () \<Longrightarrow> resp_json r = Inr data \<Longrightarrow> synonym_field data = Inr syn \<Longrightarrow>
   fst (get_cas w cid st) = and_then (py_iter syn) (next_cas w)"
  by (simp add: get_cas_def requests_get_def and_then_def)

lemma next_cas_strings:
  "next_cas w (map JStr ss) =
     Inr (case find (\<lambda>s. isdigit w (replace_hyphen s)) ss of None \<Rightarrow> not_found | Some s \<Rightarrow> s)"
  by (induction ss) simp_all

lemma next_cas_result:
  "next_cas w vs = Inr cas \<Longrightarrow> cas = not_found \<or> isdigit w (replace_hyphen cas)"
  by (induction w vs rule: next_cas.induct) (auto split: if_splits)

lemma get_cas_result:
  assumes "fst (get_cas w cid st) = Inr cas"
  shows "cas = not_found \<or> isdigit w (replace_hyphen cas)"
  using assms
  by (auto simp: get_cas_def requests_get_def and_then_def
      split: http_outcome.splits sum.splits dest: next_cas_result)


section \<open>Characters and fields\<close>

lemma isdigit_cp_ascii: "isdigit_cp w c \<Longrightarrow> c \<noteq> 9 \<and> c \<noteq> 10 \<and> c \<noteq> 45"
  by (auto simp: isdigit_cp_def split: if_splits)

lemma isdigit_replace_hyphen:
  assumes "isdigit w (replace_hyphen s)"
  shows "s \<noteq> []" and "\<forall>c\<in>set s. isdigit_cp w c \<or> c = 45" and "\<exists>c\<in>set s. isdigit_cp w c"
proof -
  from assms have ne: "filter (\<lambda>c. c \<noteq> 45) s \<noteq> []"
    and all: "\<forall>c\<in>set (filter (\<lambda>c. c \<noteq> 45) s). isdigit_cp w c"
    by (simp_all add: isdigit_def replace_hyphen_def list_all_iff)
  from ne show "s \<noteq> []" by auto
  from all show "\<forall>c\<in>set s. isdigit_cp w c \<or> c = 45" by auto
  from ne obtain c where "c \<in> set (filter (\<lambda>c. c \<noteq> 45) s)"
    by (meson last_in_set)
  with all show "\<exists>c\<in>set s. isdigit_cp w c" by auto
qed

lemma hyphens_only_no_match: "set s \<subseteq> {45} \<Longrightarrow> \<not> isdigit w (replace_hyphen s)"
proof -
  assume "set s \<subseteq> {45}"
  then have "filter (\<lambda>c. c \<noteq> 45) s = []"
    by (auto simp: filter_empty_conv)
  then show ?thesis
    by (simp add: isdigit_def replace_hyphen_def)
qed

lemma not_found_chars: "not_found \<noteq> []" "9 \<notin> set not_found" "10 \<notin> set not_found"
  by (simp_all add: not_found_def lit_def)

lemma cas_chars:
  assumes "cas = not_found \<or> isdigit w (replace_hyphen cas)"
  shows "cas \<noteq> [] \<and> 9 \<notin> set cas \<and> 10 \<notin> set cas"
  using assms
proof
  assume "cas = not_found"
  then show ?thesis by (simp add: not_found_chars)
next
  assume d: "isdigit w (replace_hyphen cas)"
  from isdigit_replace_hyphen(2) [OF d] isdigit_cp_ascii [of w]
  have "9 \<notin> set cas \<and> 10 \<notin> set cas" by fastforce
  with isdigit_replace_hyphen(1) [OF d] show ?thesis by simp
qed

lemma first_field: "9 \<notin> set a \<Longrightarrow> takeWhile (\<lambda>c. c \<noteq> 9) (a @ [9] @ rest) = a"
  by (induction a) simp_all

lemma first_field_fallback: "takeWhile (\<lambda>c. c \<noteq> 9) fallback = not_found"
  unfolding fallback_def by (rule first_field) (rule not_found_chars)

lemma split_on_none: "sep \<notin> set s \<Longrightarrow> split_on sep s = [s]"
  by (induction s) simp_all

lemma split_on_field: "sep \<notin> set a \<Longrightarrow> split_on sep (a @ [sep] @ rest) = a # split_on sep rest"
  by (induction a) simp_all


section \<open>The body of the \<^verbatim>\<open>try\<close>\<close>

text \<open>
  The five ways through lines 39 to 61: one of the four steps raises, or line 61 returns.
\<close>

lemma try_body_cid_raises:
  assumes "fst (get_cid w n st) = Inl e"
  shows "try_body w n st = (Inl e, sent st [cid_url n])"
  using assms get_cid_pair [of w n st] by (simp add: try_body_def)

lemma try_body_cas_raises:
  assumes "fst (get_cid w n st) = Inr cid"
    and "fst (get_cas w cid (sent st [cid_url n])) = Inl e"
  shows "try_body w n st = (Inl e, sent st [cid_url n, synonyms_url w cid])"
  using assms get_cid_pair [of w n st] get_cas_pair [of w cid "sent st [cid_url n]"]
  by (simp add: try_body_def sent_sent)

lemma try_body_cas_ok:
  assumes "fst (get_cid w n st) = Inr cid"
    and "fst (get_cas w cid (sent st [cid_url n])) = Inr cas"
  shows "try_body w n st =
     (case get_text w (iupac_url w cid) (sent st [cid_url n, synonyms_url w cid]) of
        (Inl e, st3) \<Rightarrow> (Inl e, st3)
      | (Inr iupac, st3) \<Rightarrow>
     (case get_text w (smiles_url w cid) st3 of
        (Inl e, st4) \<Rightarrow> (Inl e, st4)
      | (Inr smiles, st4) \<Rightarrow> (Inr (cas @ [9] @ iupac @ [9] @ smiles), st4)))"
  using assms get_cid_pair [of w n st] get_cas_pair [of w cid "sent st [cid_url n]"]
  by (simp add: try_body_def sent_sent)

lemma try_body_iupac_raises:
  assumes "fst (get_cid w n st) = Inr cid"
    and "fst (get_cas w cid (sent st [cid_url n])) = Inr cas"
    and "http_get w (requests_made st @ [cid_url n, synonyms_url w cid]) (iupac_url w cid) = Raises e"
  shows "try_body w n st = (Inl e, sent st [cid_url n, synonyms_url w cid, iupac_url w cid])"
  using assms(3) by (simp add: try_body_cas_ok [OF assms(1,2)] get_text_eq sent_sent)

lemma try_body_smiles_raises:
  assumes "fst (get_cid w n st) = Inr cid"
    and "fst (get_cas w cid (sent st [cid_url n])) = Inr cas"
    and "http_get w (requests_made st @ [cid_url n, synonyms_url w cid]) (iupac_url w cid) = Returns r3"
    and "http_get w (requests_made st @ [cid_url n, synonyms_url w cid, iupac_url w cid])
           (smiles_url w cid) = Raises e"
  shows "try_body w n st =
     (Inl e, sent st [cid_url n, synonyms_url w cid, iupac_url w cid, smiles_url w cid])"
  using assms(3,4) by (simp add: try_body_cas_ok [OF assms(1,2)] get_text_eq sent_sent)

lemma try_body_returns:
  assumes "fst (get_cid w n st) = Inr cid"
    and "fst (get_cas w cid (sent st [cid_url n])) = Inr cas"
    and "http_get w (requests_made st @ [cid_url n, synonyms_url w cid]) (iupac_url w cid) = Returns r3"
    and "http_get w (requests_made st @ [cid_url n, synonyms_url w cid, iupac_url w cid])
           (smiles_url w cid) = Returns r4"
  shows "try_body w n st =
     (Inr (cas @ [9] @ strip w (resp_text r3) @ [9] @ strip w (resp_text r4)),
      sent st [cid_url n, synonyms_url w cid, iupac_url w cid, smiles_url w cid])"
  using assms(3,4) by (simp add: try_body_cas_ok [OF assms(1,2)] get_text_eq sent_sent)


section \<open>The handlers\<close>

lemma get_compound_info_raised:
  "try_body w n st = (Inl e, st') \<Longrightarrow>
   get_compound_info w n st =
     (fallback, st'\<lparr>logged := logged st' @
        [if e = RequestException then Request_failed n e else Unexpected_error n e]\<rparr>)"
  by (simp add: get_compound_info_def)

lemma get_compound_info_returned:
  "try_body w n st = (Inr s, st') \<Longrightarrow> get_compound_info w n st = (s, st')"
  by (simp add: get_compound_info_def)

lemma try_body_cases:
  obtains (cid_raises) e where "fst (get_cid w n st) = Inl e"
  | (cas_raises) cid e where "fst (get_cid w n st) = Inr cid"
      and "fst (get_cas w cid (sent st [cid_url n])) = Inl e"
  | (iupac_raises) cid cas e where "fst (get_cid w n st) = Inr cid"
      and "fst (get_cas w cid (sent st [cid_url n])) = Inr cas"
      and "http_get w (requests_made st @ [cid_url n, synonyms_url w cid]) (iupac_url w cid) = Raises e"
  | (smiles_raises) cid cas r3 e where "fst (get_cid w n st) = Inr cid"
      and "fst (get_cas w cid (sent st [cid_url n])) = Inr cas"
      and "http_get w (requests_made st @ [cid_url n, synonyms_url w cid]) (iupac_url w cid) = Returns r3"
      and "http_get w (requests_made st @ [cid_url n, synonyms_url w cid, iupac_url w cid])
             (smiles_url w cid) = Raises e"
  | (returns) cid cas r3 r4 where "fst (get_cid w n st) = Inr cid"
      and "fst (get_cas w cid (sent st [cid_url n])) = Inr cas"
      and "http_get w (requests_made st @ [cid_url n, synonyms_url w cid]) (iupac_url w cid) = Returns r3"
      and "http_get w (requests_made st @ [cid_url n, synonyms_url w cid, iupac_url w cid])
             (smiles_url w cid) = Returns r4"
proof (cases "fst (get_cid w n st)")
  case (Inl e)
  then show ?thesis by (rule cid_raises)
next
  case cid: (Inr cid)
  show ?thesis
  proof (cases "fst (get_cas w cid (sent st [cid_url n]))")
    case (Inl e)
    with cid show ?thesis by (rule cas_raises)
  next
    case cas: (Inr cas)
    show ?thesis
    proof (cases "http_get w (requests_made st @ [cid_url n, synonyms_url w cid]) (iupac_url w cid)")
      case (Raises e)
      with cid cas show ?thesis by (rule iupac_raises)
    next
      case r3: (Returns r3)
      show ?thesis
      proof (cases "http_get w (requests_made st @ [cid_url n, synonyms_url w cid, iupac_url w cid])
             (smiles_url w cid)")
        case (Raises e)
        with cid cas r3 show ?thesis by (rule smiles_raises)
      next
        case (Returns r4)
        with cid cas r3 show ?thesis by (rule returns)
      qed
    qed
  qed
qed

lemma logged_try_body: "logged (snd (try_body w n st)) = logged st"
proof (cases rule: try_body_cases [of w n st])
  case (cid_raises e)
  then show ?thesis by (simp add: try_body_cid_raises)
next
  case (cas_raises cid e)
  then show ?thesis by (simp add: try_body_cas_raises)
next
  case (iupac_raises cid cas e)
  then show ?thesis by (simp add: try_body_iupac_raises)
next
  case (smiles_raises cid cas r3 e)
  then show ?thesis by (simp add: try_body_smiles_raises)
next
  case (returns cid cas r3 r4)
  then show ?thesis by (simp add: try_body_returns)
qed

lemma requests_get_compound_info:
  "requests_made (snd (get_compound_info w n st)) = requests_made (snd (try_body w n st))"
  by (cases "try_body w n st") (simp add: get_compound_info_def split: sum.splits)

lemma fst_get_compound_info_raised:
  "fst (try_body w n st) = Inl e \<Longrightarrow> fst (get_compound_info w n st) = fallback"
  by (cases "try_body w n st") (simp add: get_compound_info_def)

lemma fst_get_compound_info_returned:
  "fst (try_body w n st) = Inr s \<Longrightarrow> fst (get_compound_info w n st) = s"
  by (cases "try_body w n st") (simp add: get_compound_info_def)

lemma requests_after_cid:
  assumes cid: "fst (get_cid w n st) = Inr cid"
  shows "\<exists>rest \<in> {[], [iupac_url w cid], [iupac_url w cid, smiles_url w cid]}.
           requests_made (snd (try_body w n st)) =
             requests_made st @ [cid_url n, synonyms_url w cid] @ rest"
proof (cases rule: try_body_cases [of w n st])
  case (cid_raises e)
  with cid show ?thesis by simp
next
  case (cas_raises c e)
  with cid have "c = cid" by simp
  with cas_raises show ?thesis by (simp add: try_body_cas_raises)
next
  case (iupac_raises c cas e)
  with cid have "c = cid" by simp
  with iupac_raises show ?thesis by (simp add: try_body_iupac_raises)
next
  case (smiles_raises c cas r3 e)
  with cid have "c = cid" by simp
  with smiles_raises show ?thesis by (simp add: try_body_smiles_raises)
next
  case (returns c cas r3 r4)
  with cid have "c = cid" by simp
  with returns show ?thesis by (simp add: try_body_returns)
qed


lemma py_print_ascii: "\<forall>c \<in> set s. c < 128 \<Longrightarrow> py_print w s = Inr (s @ [10])"
  by (simp add: py_print_def encodable_def list_all_iff)

lemma py_print_usage: "py_print w usage = Inr (usage @ [10])"
  by (rule py_print_ascii) (simp add: usage_def lit_def)

lemma py_print_fallback: "py_print w fallback = Inr (fallback @ [10])"
  by (rule py_print_ascii) (simp add: fallback_def not_found_def lit_def)

lemma main_prints:
  "list_all (encodable w) (fst (get_compound_info w compound_name init_state)) \<Longrightarrow>
   main w (prog # compound_name # others) =
     \<lparr>stdout = fst (get_compound_info w compound_name init_state) @ [10], exit_code = 0,
      final = snd (get_compound_info w compound_name init_state)\<rparr>"
  by (cases "get_compound_info w compound_name init_state") (simp add: main_def py_print_def)

lemma main_print_raises:
  "\<not> list_all (encodable w) (fst (get_compound_info w compound_name init_state)) \<Longrightarrow>
   main w (prog # compound_name # others) =
     \<lparr>stdout = [], exit_code = 1,
      final = snd (get_compound_info w compound_name init_state)\<rparr>"
  by (cases "get_compound_info w compound_name init_state") (simp add: main_def py_print_def)

text \<open>
  A request that raises at the third or the fourth step makes the call return the
  fallback, whatever the first two steps found.
\<close>

lemma iupac_raises_fallback:
  assumes "fst (get_cid w n st) = Inr cid"
    and "fst (get_cas w cid (sent st [cid_url n])) = Inr cas"
    and "http_get w (requests_made st @ [cid_url n, synonyms_url w cid]) (iupac_url w cid) = Raises e"
  shows "fst (get_compound_info w n st) = fallback"
  by (rule fst_get_compound_info_raised [of _ _ _ e]) (simp add: try_body_iupac_raises [OF assms])

lemma smiles_raises_fallback:
  assumes "fst (get_cid w n st) = Inr cid"
    and "fst (get_cas w cid (sent st [cid_url n])) = Inr cas"
    and "http_get w (requests_made st @ [cid_url n, synonyms_url w cid]) (iupac_url w cid) = Returns r3"
    and "http_get w (requests_made st @ [cid_url n, synonyms_url w cid, iupac_url w cid])
           (smiles_url w cid) = Raises e"
  shows "fst (get_compound_info w n st) = fallback"
  by (rule fst_get_compound_info_raised [of _ _ _ e]) (simp add: try_body_smiles_raises [OF assms])


section \<open>The services, evaluated\<close>

lemma str_int_702: "str_int 702 = lit ''702''"
  by code_simp

lemma eth_cid_url:
  "cid_url (lit ''ethanol'') =
     lit ''https://pubchem.ncbi.nlm.nih.gov/rest/pug/compound/name/ethanol/cids/JSON''"
  by (simp add: cid_url_def base_url_def lit_def)

lemma eth_synonyms_url:
  "synonyms_url w (JInt 702) =
     lit ''https://pubchem.ncbi.nlm.nih.gov/rest/pug/compound/cid/702/synonyms/JSON''"
  by (simp add: synonyms_url_def base_url_def str_int_702) (simp add: lit_def)

lemma eth_iupac_url:
  "iupac_url w (JInt 702) =
     lit ''https://pubchem.ncbi.nlm.nih.gov/rest/pug/compound/cid/702/property/IUPACName/TXT''"
  by (simp add: iupac_url_def base_url_def str_int_702) (simp add: lit_def)

lemma eth_smiles_url:
  "smiles_url w (JInt 702) =
     lit ''https://pubchem.ncbi.nlm.nih.gov/rest/pug/compound/cid/702/property/IsomericSMILES/TXT''"
  by (simp add: smiles_url_def base_url_def str_int_702) (simp add: lit_def)

lemmas eth_urls = eth_cid_url eth_synonyms_url eth_iupac_url eth_smiles_url

lemma eth_get:
  "http_get (ethanol_serving r2 r3 r4) earlier1 (cid_url (lit ''ethanol'')) = Returns cids_response"
  "http_get (ethanol_serving r2 r3 r4) earlier2 (synonyms_url w2 (JInt 702)) = Returns r2"
  "http_get (ethanol_serving r2 r3 r4) earlier3 (iupac_url w3 (JInt 702)) = Returns r3"
  "http_get (ethanol_serving r2 r3 r4) earlier4 (smiles_url w4 (JInt 702)) = Returns r4"
  unfolding eth_urls by (simp_all add: ethanol_serving_def serving_def lit_def)

lemma eth_classes:
  "isdigit_cp (ethanol_serving r2 r3 r4) c = (48 \<le> c \<and> c \<le> 57)"
  "isspace_cp (ethanol_serving r2 r3 r4) c = (9 \<le> c \<and> c \<le> 13 \<or> 28 \<le> c \<and> c \<le> 32)"
  by (auto simp: isdigit_cp_def isspace_cp_def ethanol_serving_def serving_def)

lemma ok_json_status: "raise_for_status (ok_json body v) = Inr ()"
  by (simp add: ok_json_def raise_for_status_def)

lemma cids_response_status: "raise_for_status cids_response = Inr ()"
  unfolding cids_response_def by (rule ok_json_status)

lemma cids_response_json: "resp_json cids_response = Inr cids_702"
  by (simp add: cids_response_def ok_json_def)

lemma eth_cid: "fst (get_cid (ethanol_serving r2 r3 r4) (lit ''ethanol'') st) = Inr (JInt 702)"
proof -
  have "first_cid cids_702 = Inr (JInt 702)"
    by (simp add: first_cid_def cids_702_def and_then_def lit_def)
  with get_cid_returned [OF eth_get(1) cids_response_status] show ?thesis
    by (simp add: cids_response_json and_then_def)
qed

lemma eth_synonym_field: "synonym_field (synonyms_702 ss) = Inr (JList (map JStr ss))"
  by (simp add: synonym_field_def synonyms_702_def and_then_def lit_def)

lemma eth_cas_found:
  "fst (get_cas (ethanol_serving synonyms_with_cas r3 r4) (JInt 702) st) = Inr (lit ''64-17-5'')"
proof -
  have "next_cas (ethanol_serving synonyms_with_cas r3 r4)
          (map JStr [lit ''ethanol'', lit ''64-17-5'', lit ''ethyl alcohol'']) = Inr (lit ''64-17-5'')"
    by (simp add: isdigit_def replace_hyphen_def eth_classes lit_def)
  with get_cas_returned [OF eth_get(2) ok_json_status _ eth_synonym_field] show ?thesis
    by (simp add: synonyms_with_cas_def ok_json_def and_then_def)
qed

lemma eth_strip:
  "strip (ethanol_serving r2 r3 r4) (lit ''ethanol'' @ [10]) = lit ''ethanol''"
  "strip (ethanol_serving r2 r3 r4) (lit ''CCO'' @ [10]) = lit ''CCO''"
  "strip (ethanol_serving r2 r3 r4) (lit ''Status: 503'' @ [10]) = lit ''Status: 503''"
  "strip (ethanol_serving r2 r3 r4) [10] = []"
  "strip (ethanol_serving r2 r3 r4) (lit ''eth'' @ 9 # lit ''anol'' @ [10]) =
     lit ''eth'' @ 9 # lit ''anol''"
  "strip (ethanol_serving r2 r3 r4) (lit ''eth'' @ 10 # lit ''anol'' @ [10]) =
     lit ''eth'' @ 10 # lit ''anol''"
  "strip (ethanol_serving r2 r3 r4) (lit ''eth'' @ [55296, 10]) = lit ''eth'' @ [55296]"
  by (simp_all add: strip_def eth_classes lit_def)

lemma unreachable_cid:
  "fst (get_cid unreachable_world compound_name st) = Inl RequestException"
  by (rule get_cid_raises) (simp add: unreachable_world_def serving_def)


section \<open>The claims\<close>

text \<open>
  C1. Whatever the name and whatever the remote endpoints do, \<open>get_compound_info\<close>
  returns a string: the model's function has no error result, since the two handlers
  take every exception of the \<^verbatim>\<open>try\<close>. Any exception \<open>e\<close> raised in the chain of
  requests is turned into the string \<^verbatim>\<open>"Not found\tNot found\tNot found"\<close>, with one
  line logged; and the string returned is always either that one or the value of the
  \<^verbatim>\<open>return\<close> of line 61.
\<close>

theorem exceptions_become_fallback:
  "(fst (try_body w compound_name st) = Inl e \<longrightarrow>
      fst (get_compound_info w compound_name st) = not_found @ [9] @ not_found @ [9] @ not_found \<and>
      logged (snd (get_compound_info w compound_name st)) =
        logged st @ [if e = RequestException then Request_failed compound_name e
                     else Unexpected_error compound_name e]) \<and>
   (fst (get_compound_info w compound_name st) = fallback \<or>
    fst (try_body w compound_name st) = Inr (fst (get_compound_info w compound_name st)))"
proof (intro conjI impI)
  assume raised: "fst (try_body w compound_name st) = Inl e"
  then obtain st' where tb: "try_body w compound_name st = (Inl e, st')"
    by (cases "try_body w compound_name st") simp
  show "fst (get_compound_info w compound_name st) = not_found @ [9] @ not_found @ [9] @ not_found"
    using fst_get_compound_info_raised [OF raised] by (simp add: fallback_def)
  have "logged st' = logged st"
    using logged_try_body [of w compound_name st] tb by simp
  then show "logged (snd (get_compound_info w compound_name st)) =
        logged st @ [if e = RequestException then Request_failed compound_name e
                     else Unexpected_error compound_name e]"
    by (simp add: get_compound_info_raised [OF tb])
next
  show "fst (get_compound_info w compound_name st) = fallback \<or>
    fst (try_body w compound_name st) = Inr (fst (get_compound_info w compound_name st))"
  proof (cases "fst (try_body w compound_name st)")
    case (Inl e)
    then show ?thesis by (simp add: fst_get_compound_info_raised)
  next
    case (Inr s)
    then show ?thesis by (simp add: fst_get_compound_info_returned)
  qed
qed

theorem exceptions_become_fallback_witness:
  "fst (try_body unreachable_world (lit ''ethanol'') init_state) = Inl RequestException \<and>
   fst (get_compound_info unreachable_world (lit ''ethanol'') init_state) =
     not_found @ [9] @ not_found @ [9] @ not_found \<and>
   logged (snd (get_compound_info unreachable_world (lit ''ethanol'') init_state)) =
     [Request_failed (lit ''ethanol'') RequestException]"
proof -
  have h: "fst (try_body unreachable_world (lit ''ethanol'') init_state) = Inl RequestException"
    by (simp add: try_body_cid_raises [OF unreachable_cid])
  from conjunct1 [OF exceptions_become_fallback, rule_format, OF h] h show ?thesis
    by (simp add: init_state_def)
qed

text \<open>
  C2. The claim wants a failure of the third or fourth endpoint, an error status
  included, to give the fallback. Lines 55 and 59 do not call
  \<^verbatim>\<open>raise_for_status\<close>, as lines 42 and 49 do: when the third endpoint answers with
  status 503, its error text is returned as the standard name, next to the registry number
  found before.
\<close>

theorem iupac_error_status_is_not_caught:
  "http_get iupac_503_world
     [cid_url (lit ''ethanol''), synonyms_url iupac_503_world (JInt 702)]
     (iupac_url iupac_503_world (JInt 702)) = Returns (plain 503 (lit ''Status: 503'' @ [10])) \<and>
   fst (get_compound_info iupac_503_world (lit ''ethanol'') init_state) =
     lit ''64-17-5'' @ [9] @ lit ''Status: 503'' @ [9] @ lit ''CCO'' \<and>
   fst (get_compound_info iupac_503_world (lit ''ethanol'') init_state) \<noteq> fallback"
proof -
  have "fst (try_body iupac_503_world (lit ''ethanol'') init_state) =
     Inr (lit ''64-17-5'' @ [9] @ lit ''Status: 503'' @ [9] @ lit ''CCO'')"
    unfolding iupac_503_world_def
    by (simp add: try_body_returns [OF eth_cid eth_cas_found eth_get(3) eth_get(4)]
        plain_def eth_strip)
  moreover have "lit ''64-17-5'' @ [9] @ lit ''Status: 503'' @ [9] @ lit ''CCO'' \<noteq> fallback"
    by (simp add: fallback_def not_found_def lit_def)
  ultimately show ?thesis
    by (simp add: fst_get_compound_info_returned) (simp add: iupac_503_world_def eth_get)
qed

text \<open>
  C3. When the second endpoint returns a list of synonyms, the registry number is the
  first of them, in the order of the list, that \<^verbatim>\<open>isdigit\<close> accepts once its hyphens
  are removed (at least one character, and digits only), and it is \<^verbatim>\<open>"Not found"\<close>
  when there is none.
\<close>

theorem cas_is_first_match:
  assumes "http_get w (requests_made st) (synonyms_url w cid) = Returns r"
    and "raise_for_status r = Inr ()"
    and "resp_json r = Inr data"
    and "synonym_field data = Inr (JList (map JStr synonyms))"
  shows "fst (get_cas w cid st) =
           Inr (case find (\<lambda>s. isdigit w (replace_hyphen s)) synonyms of
                  None \<Rightarrow> lit ''Not found''
                | Some s \<Rightarrow> s)"
  by (simp add: get_cas_returned [OF assms] and_then_def next_cas_strings not_found_def
      split: option.splits)

theorem cas_is_first_match_witness:
  "http_get ethanol_world (requests_made init_state) (synonyms_url ethanol_world (JInt 702)) =
     Returns synonyms_with_cas \<and>
   raise_for_status synonyms_with_cas = Inr () \<and>
   resp_json synonyms_with_cas =
     Inr (synonyms_702 [lit ''ethanol'', lit ''64-17-5'', lit ''ethyl alcohol'']) \<and>
   synonym_field (synonyms_702 [lit ''ethanol'', lit ''64-17-5'', lit ''ethyl alcohol'']) =
     Inr (JList (map JStr [lit ''ethanol'', lit ''64-17-5'', lit ''ethyl alcohol''])) \<and>
   fst (get_cas ethanol_world (JInt 702) init_state) = Inr (lit ''64-17-5'')"
proof -
  have h1: "http_get ethanol_world (requests_made init_state)
      (synonyms_url ethanol_world (JInt 702)) = Returns synonyms_with_cas"
    unfolding ethanol_world_def by (rule eth_get)
  have h2: "raise_for_status synonyms_with_cas = Inr ()"
    unfolding synonyms_with_cas_def by (rule ok_json_status)
  have h3: "resp_json synonyms_with_cas =
     Inr (synonyms_702 [lit ''ethanol'', lit ''64-17-5'', lit ''ethyl alcohol''])"
    by (simp add: synonyms_with_cas_def ok_json_def)
  have h4: "synonym_field (synonyms_702 [lit ''ethanol'', lit ''64-17-5'', lit ''ethyl alcohol'']) =
     Inr (JList (map JStr [lit ''ethanol'', lit ''64-17-5'', lit ''ethyl alcohol'']))"
    by (rule eth_synonym_field)
  have "(case find (\<lambda>s. isdigit ethanol_world (replace_hyphen s))
               [lit ''ethanol'', lit ''64-17-5'', lit ''ethyl alcohol''] of
           None \<Rightarrow> lit ''Not found'' | Some s \<Rightarrow> s) = lit ''64-17-5''"
    by (simp add: isdigit_def replace_hyphen_def ethanol_world_def eth_classes lit_def)
  with cas_is_first_match [OF h1 h2 h3 h4]
  have "fst (get_cas ethanol_world (JInt 702) init_state) = Inr (lit ''64-17-5'')"
    by simp
  with h1 h2 h3 h4 show ?thesis
    by (intro conjI)
qed

lemma cid_failure_fallback:
  assumes "fst (get_cid w compound_name st) = Inl e"
  shows "fst (get_compound_info w compound_name st) = fallback \<and>
      requests_made (snd (get_compound_info w compound_name st)) =
        requests_made st @ [cid_url compound_name]"
  using assms
  by (simp add: fst_get_compound_info_raised requests_get_compound_info try_body_cid_raises)

lemma name_get:
  "http_get (name_serving r1) earlier (cid_url (lit ''ethanol'')) = Returns r1"
  unfolding eth_cid_url by (simp add: name_serving_def serving_def)

text \<open>
  C4, as amended. When the first endpoint answers without an error status and the value
  at \<^verbatim>\<open>['IdentifierList']['CID']\<close> has a first entry \<open>c\<close> (the first element of a list,
  or the first character when the value is a string), the later requests, as many of
  them as are made, are the ones for \<open>c\<close>: synonyms, then standard name, then structure
  notation. The fallback is returned, and the request of the first step is the only one
  made, when that request raises, when the status is 4xx or 5xx, when the body is not
  JSON, when the parsed body has no value at \<^verbatim>\<open>['IdentifierList']['CID']\<close>, and when
  that value has no first entry.
\<close>

theorem cid_is_first_identifier:
  "(http_get w (requests_made st) (cid_url compound_name) = Returns r \<and>
    (status_code r < 400 \<or> 600 \<le> status_code r) \<and> resp_json r = Inr data \<and>
    cid_entry data = Some v \<and> first_entry v = Some c
    \<longrightarrow> (\<exists>rest \<in> {[], [iupac_url w c], [iupac_url w c, smiles_url w c]}.
           requests_made (snd (get_compound_info w compound_name st)) =
             requests_made st @ [cid_url compound_name, synonyms_url w c] @ rest)) \<and>
   (http_get w (requests_made st) (cid_url compound_name) = Raises e
    \<longrightarrow> fst (get_compound_info w compound_name st) = fallback \<and>
      requests_made (snd (get_compound_info w compound_name st)) =
        requests_made st @ [cid_url compound_name]) \<and>
   (http_get w (requests_made st) (cid_url compound_name) = Returns r \<and>
    400 \<le> status_code r \<and> status_code r < 600
    \<longrightarrow> fst (get_compound_info w compound_name st) = fallback \<and>
      requests_made (snd (get_compound_info w compound_name st)) =
        requests_made st @ [cid_url compound_name]) \<and>
   (http_get w (requests_made st) (cid_url compound_name) = Returns r \<and> resp_json r = Inl e
    \<longrightarrow> fst (get_compound_info w compound_name st) = fallback \<and>
      requests_made (snd (get_compound_info w compound_name st)) =
        requests_made st @ [cid_url compound_name]) \<and>
   (http_get w (requests_made st) (cid_url compound_name) = Returns r \<and>
    resp_json r = Inr data \<and> cid_entry data = None
    \<longrightarrow> fst (get_compound_info w compound_name st) = fallback \<and>
      requests_made (snd (get_compound_info w compound_name st)) =
        requests_made st @ [cid_url compound_name]) \<and>
   (http_get w (requests_made st) (cid_url compound_name) = Returns r \<and>
    resp_json r = Inr data \<and> cid_entry data = Some v \<and> first_entry v = None
    \<longrightarrow> fst (get_compound_info w compound_name st) = fallback \<and>
      requests_made (snd (get_compound_info w compound_name st)) =
        requests_made st @ [cid_url compound_name])"
proof -
  let ?get = "http_get w (requests_made st) (cid_url compound_name)"
  let ?fallback = "fst (get_compound_info w compound_name st) = fallback \<and>
      requests_made (snd (get_compound_info w compound_name st)) =
        requests_made st @ [cid_url compound_name]"
  have found: "?get = Returns r \<and> (status_code r < 400 \<or> 600 \<le> status_code r) \<and>
      resp_json r = Inr data \<and> cid_entry data = Some v \<and> first_entry v = Some c
    \<longrightarrow> (\<exists>rest \<in> {[], [iupac_url w c], [iupac_url w c, smiles_url w c]}.
           requests_made (snd (get_compound_info w compound_name st)) =
             requests_made st @ [cid_url compound_name, synonyms_url w c] @ rest)"
  proof (intro impI, elim conjE)
    assume r: "?get = Returns r"
      and status: "status_code r < 400 \<or> 600 \<le> status_code r"
      and data: "resp_json r = Inr data"
      and v: "cid_entry data = Some v" and c: "first_entry v = Some c"
    from status have "raise_for_status r = Inr ()"
      by (auto simp: raise_for_status_def)
    from get_cid_returned [OF r this] data v c
    have "fst (get_cid w compound_name st) = Inr c"
      by (simp add: and_then_def first_cid_entry first_entry_getitem0)
    from requests_after_cid [OF this]
    show "\<exists>rest \<in> {[], [iupac_url w c], [iupac_url w c, smiles_url w c]}.
           requests_made (snd (get_compound_info w compound_name st)) =
             requests_made st @ [cid_url compound_name, synonyms_url w c] @ rest"
      by (simp only: requests_get_compound_info)
  qed
  have raises: "?get = Raises e \<longrightarrow> ?fallback"
  proof
    assume "?get = Raises e"
    then have "fst (get_cid w compound_name st) = Inl e"
      by (rule get_cid_raises)
    then show ?fallback
      by (rule cid_failure_fallback)
  qed
  have status: "?get = Returns r \<and> 400 \<le> status_code r \<and> status_code r < 600 \<longrightarrow> ?fallback"
  proof (intro impI, elim conjE)
    assume "?get = Returns r" and "400 \<le> status_code r" and "status_code r < 600"
    then have "fst (get_cid w compound_name st) = Inl RequestException"
      by (rule get_cid_error_status)
    then show ?fallback
      by (rule cid_failure_fallback)
  qed
  have unreadable: ?fallback
    if r: "?get = Returns r" and e: "and_then (resp_json r) first_cid = Inl e'" for e'
  proof -
    from get_cid_unreadable [OF r e] obtain e'' where "fst (get_cid w compound_name st) = Inl e''"
      by (elim exE)
    then show ?thesis
      by (rule cid_failure_fallback)
  qed
  have not_json: "?get = Returns r \<and> resp_json r = Inl e \<longrightarrow> ?fallback"
  proof (intro impI, elim conjE)
    assume r: "?get = Returns r" and "resp_json r = Inl e"
    then have "and_then (resp_json r) first_cid = Inl e"
      by (simp add: and_then_def)
    with r show ?fallback
      by (rule unreadable)
  qed
  have no_entry: "?get = Returns r \<and> resp_json r = Inr data \<and> cid_entry data = None
    \<longrightarrow> ?fallback"
  proof (intro impI, elim conjE)
    assume r: "?get = Returns r" and data: "resp_json r = Inr data"
      and none: "cid_entry data = None"
    from first_cid_no_entry [OF none] data
    obtain e' where "and_then (resp_json r) first_cid = Inl e'"
      by (auto simp: and_then_def)
    with r show ?fallback
      by (rule unreadable)
  qed
  have no_first: "?get = Returns r \<and> resp_json r = Inr data \<and> cid_entry data = Some v \<and>
      first_entry v = None \<longrightarrow> ?fallback"
  proof (intro impI, elim conjE)
    assume r: "?get = Returns r" and data: "resp_json r = Inr data"
      and v: "cid_entry data = Some v" and none: "first_entry v = None"
    from no_first_entry_getitem0 [OF none] data v
    obtain e' where "and_then (resp_json r) first_cid = Inl e'"
      by (auto simp: and_then_def first_cid_entry)
    with r show ?fallback
      by (rule unreadable)
  qed
  show ?thesis
    by (intro conjI found raises status not_json no_entry no_first)
qed

theorem cid_is_first_identifier_witness:
  "(http_get ethanol_world (requests_made init_state) (cid_url (lit ''ethanol'')) =
      Returns cids_response \<and>
    (status_code cids_response < 400 \<or> 600 \<le> status_code cids_response) \<and>
    resp_json cids_response = Inr cids_702 \<and>
    cid_entry cids_702 = Some (JList [JInt 702]) \<and>
    first_entry (JList [JInt 702]) = Some (JInt 702)) \<and>
   (\<exists>rest \<in> {[], [iupac_url ethanol_world (JInt 702)],
               [iupac_url ethanol_world (JInt 702), smiles_url ethanol_world (JInt 702)]}.
      requests_made (snd (get_compound_info ethanol_world (lit ''ethanol'') init_state)) =
        requests_made init_state @
          [cid_url (lit ''ethanol''), synonyms_url ethanol_world (JInt 702)] @ rest) \<and>
   http_get unreachable_world (requests_made init_state) (cid_url (lit ''ethanol'')) =
     Raises RequestException \<and>
   fst (get_compound_info unreachable_world (lit ''ethanol'') init_state) = fallback \<and>
   requests_made (snd (get_compound_info unreachable_world (lit ''ethanol'') init_state)) =
     requests_made init_state @ [cid_url (lit ''ethanol'')] \<and>
   (http_get (name_serving busy_response) (requests_made init_state) (cid_url (lit ''ethanol'')) =
      Returns busy_response \<and>
    400 \<le> status_code busy_response \<and> status_code busy_response < 600) \<and>
   fst (get_compound_info (name_serving busy_response) (lit ''ethanol'') init_state) = fallback \<and>
   requests_made (snd (get_compound_info (name_serving busy_response) (lit ''ethanol'') init_state)) =
     requests_made init_state @ [cid_url (lit ''ethanol'')] \<and>
   (http_get (name_serving html_response) (requests_made init_state) (cid_url (lit ''ethanol'')) =
      Returns html_response \<and>
    resp_json html_response = Inl RequestException) \<and>
   fst (get_compound_info (name_serving html_response) (lit ''ethanol'') init_state) = fallback \<and>
   requests_made (snd (get_compound_info (name_serving html_response) (lit ''ethanol'') init_state)) =
     requests_made init_state @ [cid_url (lit ''ethanol'')] \<and>
   (http_get (name_serving fault_response) (requests_made init_state) (cid_url (lit ''ethanol'')) =
      Returns fault_response \<and>
    resp_json fault_response =
      Inr (JDict [(lit ''Fault'', JDict [(lit ''Code'', JStr (lit ''PUGREST.NotFound''))])]) \<and>
    cid_entry (JDict [(lit ''Fault'', JDict [(lit ''Code'', JStr (lit ''PUGREST.NotFound''))])]) =
      None) \<and>
   fst (get_compound_info (name_serving fault_response) (lit ''ethanol'') init_state) = fallback \<and>
   requests_made (snd (get_compound_info (name_serving fault_response) (lit ''ethanol'') init_state)) =
     requests_made init_state @ [cid_url (lit ''ethanol'')] \<and>
   (http_get (name_serving no_cids_response) (requests_made init_state)
      (cid_url (lit ''ethanol'')) = Returns no_cids_response \<and>
    resp_json no_cids_response =
      Inr (JDict [(lit ''IdentifierList'', JDict [(lit ''CID'', JList [])])]) \<and>
    cid_entry (JDict [(lit ''IdentifierList'', JDict [(lit ''CID'', JList [])])]) =
      Some (JList []) \<and>
    first_entry (JList []) = None) \<and>
   fst (get_compound_info (name_serving no_cids_response) (lit ''ethanol'') init_state) = fallback \<and>
   requests_made (snd (get_compound_info (name_serving no_cids_response) (lit ''ethanol'') init_state)) =
     requests_made init_state @ [cid_url (lit ''ethanol'')]"
proof -
  note t = cid_is_first_identifier
  have h1: "http_get ethanol_world (requests_made init_state) (cid_url (lit ''ethanol'')) =
      Returns cids_response \<and>
    (status_code cids_response < 400 \<or> 600 \<le> status_code cids_response) \<and>
    resp_json cids_response = Inr cids_702 \<and>
    cid_entry cids_702 = Some (JList [JInt 702]) \<and>
    first_entry (JList [JInt 702]) = Some (JInt 702)"
    unfolding ethanol_world_def
    by (simp add: eth_get cids_response_json)
      (simp add: cids_response_def ok_json_def cid_entry_def cids_702_def lit_def)
  note c1 = t [THEN conjunct1, rule_format, OF h1]
  have h2: "http_get unreachable_world (requests_made init_state) (cid_url (lit ''ethanol'')) =
     Raises RequestException"
    by (simp add: unreachable_world_def serving_def)
  note c2 = t [THEN conjunct2, THEN conjunct1, rule_format, OF h2]
  have h3: "http_get (name_serving busy_response) (requests_made init_state)
      (cid_url (lit ''ethanol'')) = Returns busy_response \<and>
    400 \<le> status_code busy_response \<and> status_code busy_response < 600"
    by (simp add: name_get) (simp add: busy_response_def plain_def)
  note c3 = t [THEN conjunct2, THEN conjunct2, THEN conjunct1, rule_format, OF h3]
  have h4: "http_get (name_serving html_response) (requests_made init_state)
      (cid_url (lit ''ethanol'')) = Returns html_response \<and>
    resp_json html_response = Inl RequestException"
    by (simp add: name_get) (simp add: html_response_def plain_def)
  note c4 = t [THEN conjunct2, THEN conjunct2, THEN conjunct2, THEN conjunct1, rule_format, OF h4]
  have h5: "http_get (name_serving fault_response) (requests_made init_state)
      (cid_url (lit ''ethanol'')) = Returns fault_response \<and>
    resp_json fault_response =
      Inr (JDict [(lit ''Fault'', JDict [(lit ''Code'', JStr (lit ''PUGREST.NotFound''))])]) \<and>
    cid_entry (JDict [(lit ''Fault'', JDict [(lit ''Code'', JStr (lit ''PUGREST.NotFound''))])]) =
      None"
    by (simp add: name_get) (simp add: fault_response_def ok_json_def cid_entry_def lit_def)
  note c5 = t [THEN conjunct2, THEN conjunct2, THEN conjunct2, THEN conjunct2, THEN conjunct1,
      rule_format, OF h5]
  have h6: "http_get (name_serving no_cids_response) (requests_made init_state)
      (cid_url (lit ''ethanol'')) = Returns no_cids_response \<and>
    resp_json no_cids_response =
      Inr (JDict [(lit ''IdentifierList'', JDict [(lit ''CID'', JList [])])]) \<and>
    cid_entry (JDict [(lit ''IdentifierList'', JDict [(lit ''CID'', JList [])])]) =
      Some (JList []) \<and>
    first_entry (JList []) = None"
    by (simp add: name_get) (simp add: no_cids_response_def ok_json_def cid_entry_def lit_def)
  note c6 = t [THEN conjunct2, THEN conjunct2, THEN conjunct2, THEN conjunct2, THEN conjunct2,
      rule_format, OF h6]
  show ?thesis
    using h1 c1 h2 c2 h3 c3 h4 c4 h5 c5 h6 c6 by (intro conjI) (elim conjE, assumption)+
qed

lemma seven_urls:
  "synonyms_url w (JStr (lit ''7'')) =
     lit ''https://pubchem.ncbi.nlm.nih.gov/rest/pug/compound/cid/7/synonyms/JSON''"
  "iupac_url w (JStr (lit ''7'')) =
     lit ''https://pubchem.ncbi.nlm.nih.gov/rest/pug/compound/cid/7/property/IUPACName/TXT''"
  "smiles_url w (JStr (lit ''7'')) =
     lit ''https://pubchem.ncbi.nlm.nih.gov/rest/pug/compound/cid/7/property/IsomericSMILES/TXT''"
  by (simp_all add: synonyms_url_def iupac_url_def smiles_url_def base_url_def lit_def)

lemma seven_get:
  "http_get cid_string_world earlier1 (cid_url (lit ''ethanol'')) = Returns cid_string_response"
  "http_get cid_string_world earlier2 (synonyms_url w2 (JStr (lit ''7''))) = Returns synonyms_7"
  "http_get cid_string_world earlier3 (iupac_url w3 (JStr (lit ''7''))) =
     Returns (plain 200 (lit ''formaldehyde'' @ [10]))"
  "http_get cid_string_world earlier4 (smiles_url w4 (JStr (lit ''7''))) =
     Returns (plain 200 (lit ''C=O'' @ [10]))"
  unfolding eth_cid_url seven_urls by (simp_all add: cid_string_world_def serving_def lit_def)

lemma seven_classes:
  "isdigit_cp cid_string_world c = (48 \<le> c \<and> c \<le> 57)"
  "isspace_cp cid_string_world c = (9 \<le> c \<and> c \<le> 13 \<or> 28 \<le> c \<and> c \<le> 32)"
  by (auto simp: isdigit_cp_def isspace_cp_def cid_string_world_def serving_def)

lemma cid_string_json:
  "resp_json cid_string_response =
     Inr (JDict [(lit ''IdentifierList'', JDict [(lit ''CID'', JStr (lit ''702''))])])"
  by (simp add: cid_string_response_def ok_json_def)

lemma seven_cid: "fst (get_cid cid_string_world (lit ''ethanol'') st) = Inr (JStr (lit ''7''))"
proof -
  have "first_cid (JDict [(lit ''IdentifierList'', JDict [(lit ''CID'', JStr (lit ''702''))])]) =
      Inr (JStr (lit ''7''))"
    by (simp add: first_cid_def and_then_def lit_def)
  moreover have "raise_for_status cid_string_response = Inr ()"
    unfolding cid_string_response_def by (rule ok_json_status)
  ultimately show ?thesis
    using get_cid_returned [OF seven_get(1)] by (simp add: cid_string_json and_then_def)
qed

lemma seven_cas:
  "fst (get_cas cid_string_world (JStr (lit ''7'')) st) = Inr (lit ''50-00-0'')"
proof -
  have status: "raise_for_status synonyms_7 = Inr ()"
    unfolding synonyms_7_def by (rule ok_json_status)
  have json: "resp_json synonyms_7 = Inr synonyms_7_data"
    by (simp add: synonyms_7_def ok_json_def)
  have field: "synonym_field synonyms_7_data =
      Inr (JList (map JStr [lit ''formalin'', lit ''50-00-0'']))"
    by (simp add: synonyms_7_data_def synonym_field_def and_then_def lit_def)
  have "next_cas cid_string_world (map JStr [lit ''formalin'', lit ''50-00-0'']) =
      Inr (lit ''50-00-0'')"
    by (simp add: isdigit_def replace_hyphen_def seven_classes lit_def)
  with get_cas_returned [OF seven_get(2) status json field] show ?thesis
    by (simp add: and_then_def)
qed

lemma seven_strip:
  "strip cid_string_world (lit ''formaldehyde'' @ [10]) = lit ''formaldehyde''"
  "strip cid_string_world (lit ''C=O'' @ [10]) = lit ''C=O''"
  by (simp_all add: strip_def seven_classes lit_def)

text \<open>
  C4 as it was stated has the fallback returned, and no further request made, whenever
  the response cannot be parsed into an identifier list. Line 44 does not ask for a list:
  when the service gives the string \<^verbatim>\<open>"702"\<close> there, the identifier is its first
  character and the three other requests are made for the compound 7.
\<close>

theorem cid_string_is_not_refused:
  "http_get cid_string_world (requests_made init_state) (cid_url (lit ''ethanol'')) =
     Returns cid_string_response \<and>
   resp_json cid_string_response =
     Inr (JDict [(lit ''IdentifierList'', JDict [(lit ''CID'', JStr (lit ''702''))])]) \<and>
   fst (get_compound_info cid_string_world (lit ''ethanol'') init_state) =
     lit ''50-00-0'' @ [9] @ lit ''formaldehyde'' @ [9] @ lit ''C=O'' \<and>
   fst (get_compound_info cid_string_world (lit ''ethanol'') init_state) \<noteq> fallback \<and>
   requests_made (snd (get_compound_info cid_string_world (lit ''ethanol'') init_state)) =
     [cid_url (lit ''ethanol''),
      lit ''https://pubchem.ncbi.nlm.nih.gov/rest/pug/compound/cid/7/synonyms/JSON'',
      lit ''https://pubchem.ncbi.nlm.nih.gov/rest/pug/compound/cid/7/property/IUPACName/TXT'',
      lit ''https://pubchem.ncbi.nlm.nih.gov/rest/pug/compound/cid/7/property/IsomericSMILES/TXT'']"
proof -
  have tb: "try_body cid_string_world (lit ''ethanol'') init_state =
     (Inr (lit ''50-00-0'' @ [9] @ lit ''formaldehyde'' @ [9] @ lit ''C=O''),
      sent init_state [cid_url (lit ''ethanol''), synonyms_url cid_string_world (JStr (lit ''7'')),
        iupac_url cid_string_world (JStr (lit ''7'')),
        smiles_url cid_string_world (JStr (lit ''7''))])"
    by (simp add: try_body_returns [OF seven_cid seven_cas seven_get(3) seven_get(4)]
        plain_def seven_strip)
  have result: "fst (get_compound_info cid_string_world (lit ''ethanol'') init_state) =
     lit ''50-00-0'' @ [9] @ lit ''formaldehyde'' @ [9] @ lit ''C=O''"
    by (simp add: get_compound_info_returned [OF tb])
  have init_requests: "requests_made init_state = []"
    by (simp add: init_state_def)
  have differs: "lit ''50-00-0'' @ [9] @ lit ''formaldehyde'' @ [9] @ lit ''C=O'' \<noteq> fallback"
    by (simp add: fallback_def not_found_def lit_def)
  have requests: "requests_made (snd (get_compound_info cid_string_world (lit ''ethanol'')
      init_state)) =
     [cid_url (lit ''ethanol''),
      lit ''https://pubchem.ncbi.nlm.nih.gov/rest/pug/compound/cid/7/synonyms/JSON'',
      lit ''https://pubchem.ncbi.nlm.nih.gov/rest/pug/compound/cid/7/property/IUPACName/TXT'',
      lit ''https://pubchem.ncbi.nlm.nih.gov/rest/pug/compound/cid/7/property/IsomericSMILES/TXT'']"
    by (simp add: get_compound_info_returned [OF tb] init_requests seven_urls)
  from differs have differs': "fst (get_compound_info cid_string_world (lit ''ethanol'')
      init_state) \<noteq> fallback"
    by (simp only: result not_False_eq_True)
  show ?thesis
    by (intro conjI seven_get(1) cid_string_json result differs' requests)
qed

text \<open>
  C5. When the first two steps succeed and no synonym of the list is a registry number,
  the chain goes on: the third request is made, the fourth is made as soon as the third
  returns a response, and when both return, the string is \<^verbatim>\<open>"Not found"\<close>, a tab, and
  the two trimmed bodies. In every case the first field of the returned string is
  \<^verbatim>\<open>"Not found"\<close>.
\<close>

theorem no_match_does_not_stop:
  assumes cid: "fst (get_cid w compound_name st) = Inr cid"
    and r2: "http_get w (requests_made st @ [cid_url compound_name]) (synonyms_url w cid) = Returns r2"
    and ok: "raise_for_status r2 = Inr ()"
    and data: "resp_json r2 = Inr data"
    and syn: "synonym_field data = Inr (JList (map JStr synonyms))"
    and none: "\<forall>s \<in> set synonyms. \<not> isdigit w (replace_hyphen s)"
  shows "takeWhile (\<lambda>c. c \<noteq> 9) (fst (get_compound_info w compound_name st)) = not_found \<and>
    (\<exists>rest. requests_made (snd (get_compound_info w compound_name st)) =
       requests_made st @ [cid_url compound_name, synonyms_url w cid, iupac_url w cid] @ rest) \<and>
    (\<forall>r3. http_get w (requests_made st @ [cid_url compound_name, synonyms_url w cid])
            (iupac_url w cid) = Returns r3 \<longrightarrow>
       requests_made (snd (get_compound_info w compound_name st)) =
         requests_made st @
           [cid_url compound_name, synonyms_url w cid, iupac_url w cid, smiles_url w cid]) \<and>
    (\<forall>r3 r4. http_get w (requests_made st @ [cid_url compound_name, synonyms_url w cid])
            (iupac_url w cid) = Returns r3 \<and>
          http_get w (requests_made st @ [cid_url compound_name, synonyms_url w cid, iupac_url w cid])
            (smiles_url w cid) = Returns r4 \<longrightarrow>
       fst (get_compound_info w compound_name st) =
         not_found @ [9] @ strip w (resp_text r3) @ [9] @ strip w (resp_text r4))"
proof -
  have "find (\<lambda>s. isdigit w (replace_hyphen s)) synonyms = None"
    using none by (simp add: find_None_iff)
  then have cas: "fst (get_cas w cid (sent st [cid_url compound_name])) = Inr not_found"
    using get_cas_returned [of w "sent st [cid_url compound_name]" cid r2 data, OF _ ok data syn] r2
    by (simp add: and_then_def next_cas_strings)
  show ?thesis
  proof (cases "http_get w (requests_made st @ [cid_url compound_name, synonyms_url w cid])
            (iupac_url w cid)")
    case (Raises e)
    note tb = try_body_iupac_raises [OF cid cas Raises]
    then show ?thesis
      using Raises
      by (simp add: requests_get_compound_info fst_get_compound_info_raised first_field_fallback)
  next
    case r3: (Returns r3)
    show ?thesis
    proof (cases "http_get w (requests_made st @ [cid_url compound_name, synonyms_url w cid,
              iupac_url w cid]) (smiles_url w cid)")
      case (Raises e)
      note tb = try_body_smiles_raises [OF cid cas r3 Raises]
      then show ?thesis
        using r3 Raises
        by (simp add: requests_get_compound_info fst_get_compound_info_raised first_field_fallback)
    next
      case r4: (Returns r4)
      note tb = try_body_returns [OF cid cas r3 r4]
      have "takeWhile (\<lambda>c. c \<noteq> 9)
              (not_found @ [9] @ strip w (resp_text r3) @ [9] @ strip w (resp_text r4)) = not_found"
        by (rule first_field) (rule not_found_chars)
      with tb show ?thesis
        using r3 r4
        by (simp add: requests_get_compound_info fst_get_compound_info_returned)
    qed
  qed
qed

theorem no_match_does_not_stop_witness:
  "fst (get_cid no_cas_world (lit ''ethanol'') init_state) = Inr (JInt 702) \<and>
   http_get no_cas_world (requests_made init_state @ [cid_url (lit ''ethanol'')])
     (synonyms_url no_cas_world (JInt 702)) = Returns synonyms_without_cas \<and>
   raise_for_status synonyms_without_cas = Inr () \<and>
   resp_json synonyms_without_cas = Inr (synonyms_702 [lit ''ethanol'', lit ''ethyl alcohol'']) \<and>
   synonym_field (synonyms_702 [lit ''ethanol'', lit ''ethyl alcohol'']) =
     Inr (JList (map JStr [lit ''ethanol'', lit ''ethyl alcohol''])) \<and>
   \<not> isdigit no_cas_world (replace_hyphen (lit ''ethanol'')) \<and>
   \<not> isdigit no_cas_world (replace_hyphen (lit ''ethyl alcohol'')) \<and>
   http_get no_cas_world
     (requests_made init_state @ [cid_url (lit ''ethanol''), synonyms_url no_cas_world (JInt 702)])
     (iupac_url no_cas_world (JInt 702)) = Returns (plain 200 (lit ''ethanol'' @ [10])) \<and>
   http_get no_cas_world
     (requests_made init_state @ [cid_url (lit ''ethanol''), synonyms_url no_cas_world (JInt 702),
        iupac_url no_cas_world (JInt 702)])
     (smiles_url no_cas_world (JInt 702)) = Returns (plain 200 (lit ''CCO'' @ [10])) \<and>
   takeWhile (\<lambda>c. c \<noteq> 9) (fst (get_compound_info no_cas_world (lit ''ethanol'') init_state)) =
     not_found \<and>
   requests_made (snd (get_compound_info no_cas_world (lit ''ethanol'') init_state)) =
     requests_made init_state @
       [cid_url (lit ''ethanol''), synonyms_url no_cas_world (JInt 702),
        iupac_url no_cas_world (JInt 702), smiles_url no_cas_world (JInt 702)] \<and>
   fst (get_compound_info no_cas_world (lit ''ethanol'') init_state) =
     not_found @ [9] @ strip no_cas_world (resp_text (plain 200 (lit ''ethanol'' @ [10]))) @ [9] @
       strip no_cas_world (resp_text (plain 200 (lit ''CCO'' @ [10])))"
proof -
  have h1: "fst (get_cid no_cas_world (lit ''ethanol'') init_state) = Inr (JInt 702)"
    unfolding no_cas_world_def by (rule eth_cid)
  have h2: "http_get no_cas_world (requests_made init_state @ [cid_url (lit ''ethanol'')])
     (synonyms_url no_cas_world (JInt 702)) = Returns synonyms_without_cas"
    unfolding no_cas_world_def by (rule eth_get)
  have h3: "raise_for_status synonyms_without_cas = Inr ()"
    unfolding synonyms_without_cas_def by (rule ok_json_status)
  have h4: "resp_json synonyms_without_cas =
      Inr (synonyms_702 [lit ''ethanol'', lit ''ethyl alcohol''])"
    by (simp add: synonyms_without_cas_def ok_json_def)
  have h5: "synonym_field (synonyms_702 [lit ''ethanol'', lit ''ethyl alcohol'']) =
     Inr (JList (map JStr [lit ''ethanol'', lit ''ethyl alcohol'']))"
    by (rule eth_synonym_field)
  have h6: "\<forall>s \<in> set [lit ''ethanol'', lit ''ethyl alcohol''].
      \<not> isdigit no_cas_world (replace_hyphen s)"
    by (simp add: isdigit_def replace_hyphen_def no_cas_world_def eth_classes lit_def)
  have h7: "http_get no_cas_world
     (requests_made init_state @ [cid_url (lit ''ethanol''), synonyms_url no_cas_world (JInt 702)])
     (iupac_url no_cas_world (JInt 702)) = Returns (plain 200 (lit ''ethanol'' @ [10]))"
    unfolding no_cas_world_def by (rule eth_get)
  have h8: "http_get no_cas_world
     (requests_made init_state @ [cid_url (lit ''ethanol''), synonyms_url no_cas_world (JInt 702),
        iupac_url no_cas_world (JInt 702)])
     (smiles_url no_cas_world (JInt 702)) = Returns (plain 200 (lit ''CCO'' @ [10]))"
    unfolding no_cas_world_def by (rule eth_get)
  note t = no_match_does_not_stop [OF h1 h2 h3 h4 h5 h6]
  note t1 = conjunct1 [OF t]
  note t3 = conjunct1 [OF conjunct2 [OF conjunct2 [OF t]], rule_format, OF h7]
  note t4 = conjunct2 [OF conjunct2 [OF conjunct2 [OF t]], rule_format, OF conjI [OF h7 h8]]
  from h6 have h6a: "\<not> isdigit no_cas_world (replace_hyphen (lit ''ethanol''))"
    and h6b: "\<not> isdigit no_cas_world (replace_hyphen (lit ''ethyl alcohol''))"
    by simp_all
  show ?thesis
    by (intro conjI h1 h2 h3 h4 h5 h6a h6b h7 h8 t1 t3 t4)
qed


text \<open>
  C6, as amended. When the name resolves to an identifier, the four endpoints answer,
  the trimmed bodies of the third and fourth are not empty and hold no tab and no line
  feed, and standard output can encode every character of the three fields, the script
  prints one line made of three non-empty fields separated by tabs (registry number,
  standard name, structure notation) and exits with code 0. When the call returns the
  string of three \<^verbatim>\<open>"Not found"\<close>, that line is printed and the exit code is 0 as
  well.
\<close>

theorem main_prints_three_fields:
  assumes cid: "fst (get_cid w compound_name init_state) = Inr cid"
    and cas: "fst (get_cas w cid (snd (get_cid w compound_name init_state))) = Inr cas"
    and r3: "http_get w [cid_url compound_name, synonyms_url w cid] (iupac_url w cid) = Returns r3"
    and r4: "http_get w [cid_url compound_name, synonyms_url w cid, iupac_url w cid]
               (smiles_url w cid) = Returns r4"
    and iupac: "strip w (resp_text r3) = iupac" "iupac \<noteq> []" "9 \<notin> set iupac" "10 \<notin> set iupac"
    and smiles: "strip w (resp_text r4) = smiles" "smiles \<noteq> []" "9 \<notin> set smiles" "10 \<notin> set smiles"
    and enc: "list_all (encodable w) (cas @ iupac @ smiles)"
  shows "(\<exists>line. stdout (main w (prog # compound_name # others)) = line @ [10] \<and> 10 \<notin> set line \<and>
            split_on 9 line = [cas, iupac, smiles] \<and> cas \<noteq> []) \<and>
         exit_code (main w (prog # compound_name # others)) = 0 \<and>
         (fst (get_compound_info w' compound_name' init_state) = fallback \<longrightarrow>
            stdout (main w' (prog' # compound_name' # others')) = fallback @ [10] \<and>
            exit_code (main w' (prog' # compound_name' # others')) = 0)"
proof (intro conjI impI)
  from cas have cas': "fst (get_cas w cid (sent init_state [cid_url compound_name])) = Inr cas"
    by (simp add: snd_get_cid)
  have "fst (try_body w compound_name init_state) = Inr (cas @ [9] @ iupac @ [9] @ smiles)"
    using try_body_returns [OF cid cas', of r3 r4] r3 r4 iupac(1) smiles(1)
    by (simp add: init_state_def)
  then have line: "fst (get_compound_info w compound_name init_state) =
      cas @ [9] @ iupac @ [9] @ smiles"
    by (rule fst_get_compound_info_returned)
  from enc have "list_all (encodable w) (cas @ [9] @ iupac @ [9] @ smiles)"
    by (simp add: encodable_def)
  then have printed: "main w (prog # compound_name # others) =
      \<lparr>stdout = (cas @ [9] @ iupac @ [9] @ smiles) @ [10], exit_code = 0,
       final = snd (get_compound_info w compound_name init_state)\<rparr>"
    using main_prints [of w compound_name prog others] by (simp only: line)
  note c = cas_chars [OF get_cas_result [OF cas]]
  from c have c9: "9 \<notin> set cas" by simp
  have "split_on 9 (cas @ [9] @ iupac @ [9] @ smiles) = cas # split_on 9 (iupac @ [9] @ smiles)"
    by (rule split_on_field [OF c9])
  also have "split_on 9 (iupac @ [9] @ smiles) = iupac # split_on 9 smiles"
    by (rule split_on_field [OF iupac(3)])
  also have "split_on 9 smiles = [smiles]"
    by (rule split_on_none [OF smiles(3)])
  finally have fields: "split_on 9 (cas @ [9] @ iupac @ [9] @ smiles) = [cas, iupac, smiles]" .
  have one: "10 \<notin> set (cas @ [9] @ iupac @ [9] @ smiles)"
    using c iupac(4) smiles(4) by simp
  from c have ne: "cas \<noteq> []" by simp
  show "\<exists>line. stdout (main w (prog # compound_name # others)) = line @ [10] \<and> 10 \<notin> set line \<and>
            split_on 9 line = [cas, iupac, smiles] \<and> cas \<noteq> []"
    by (rule exI [of _ "cas @ [9] @ iupac @ [9] @ smiles"])
      (simp only: printed run.simps fields one ne simp_thms)
  show "exit_code (main w (prog # compound_name # others)) = 0"
    by (simp only: printed run.simps)
next
  assume fb: "fst (get_compound_info w' compound_name' init_state) = fallback"
  have "list_all (encodable w') fallback"
    by (simp add: encodable_def fallback_def not_found_def lit_def)
  with fb have "main w' (prog' # compound_name' # others') =
      \<lparr>stdout = fallback @ [10], exit_code = 0,
       final = snd (get_compound_info w' compound_name' init_state)\<rparr>"
    using main_prints [of w' compound_name' prog' others'] by simp
  then show "stdout (main w' (prog' # compound_name' # others')) = fallback @ [10]"
    and "exit_code (main w' (prog' # compound_name' # others')) = 0"
    by simp_all
qed

theorem main_prints_three_fields_witness:
  "fst (get_cid ethanol_world (lit ''ethanol'') init_state) = Inr (JInt 702) \<and>
   fst (get_cas ethanol_world (JInt 702) (snd (get_cid ethanol_world (lit ''ethanol'') init_state))) =
     Inr (lit ''64-17-5'') \<and>
   http_get ethanol_world [cid_url (lit ''ethanol''), synonyms_url ethanol_world (JInt 702)]
     (iupac_url ethanol_world (JInt 702)) = Returns (plain 200 (lit ''ethanol'' @ [10])) \<and>
   http_get ethanol_world [cid_url (lit ''ethanol''), synonyms_url ethanol_world (JInt 702),
       iupac_url ethanol_world (JInt 702)]
     (smiles_url ethanol_world (JInt 702)) = Returns (plain 200 (lit ''CCO'' @ [10])) \<and>
   strip ethanol_world (resp_text (plain 200 (lit ''ethanol'' @ [10]))) = lit ''ethanol'' \<and>
   lit ''ethanol'' \<noteq> [] \<and> 9 \<notin> set (lit ''ethanol'') \<and> 10 \<notin> set (lit ''ethanol'') \<and>
   strip ethanol_world (resp_text (plain 200 (lit ''CCO'' @ [10]))) = lit ''CCO'' \<and>
   lit ''CCO'' \<noteq> [] \<and> 9 \<notin> set (lit ''CCO'') \<and> 10 \<notin> set (lit ''CCO'') \<and>
   list_all (encodable ethanol_world) (lit ''64-17-5'' @ lit ''ethanol'' @ lit ''CCO'') \<and>
   (\<exists>line. stdout (main ethanol_world [script, lit ''ethanol'']) = line @ [10] \<and> 10 \<notin> set line \<and>
      split_on 9 line = [lit ''64-17-5'', lit ''ethanol'', lit ''CCO''] \<and> lit ''64-17-5'' \<noteq> []) \<and>
   exit_code (main ethanol_world [script, lit ''ethanol'']) = 0 \<and>
   fst (get_compound_info unreachable_world (lit ''ethanol'') init_state) = fallback \<and>
   stdout (main unreachable_world [script, lit ''ethanol'']) = fallback @ [10] \<and>
   exit_code (main unreachable_world [script, lit ''ethanol'']) = 0"
proof -
  have h1: "fst (get_cid ethanol_world (lit ''ethanol'') init_state) = Inr (JInt 702)"
    unfolding ethanol_world_def by (rule eth_cid)
  have h2: "fst (get_cas ethanol_world (JInt 702)
      (snd (get_cid ethanol_world (lit ''ethanol'') init_state))) = Inr (lit ''64-17-5'')"
    unfolding ethanol_world_def by (rule eth_cas_found)
  have h3: "http_get ethanol_world [cid_url (lit ''ethanol''), synonyms_url ethanol_world (JInt 702)]
     (iupac_url ethanol_world (JInt 702)) = Returns (plain 200 (lit ''ethanol'' @ [10]))"
    unfolding ethanol_world_def by (rule eth_get)
  have h4: "http_get ethanol_world [cid_url (lit ''ethanol''), synonyms_url ethanol_world (JInt 702),
       iupac_url ethanol_world (JInt 702)]
     (smiles_url ethanol_world (JInt 702)) = Returns (plain 200 (lit ''CCO'' @ [10]))"
    unfolding ethanol_world_def by (rule eth_get)
  have h5: "strip ethanol_world (resp_text (plain 200 (lit ''ethanol'' @ [10]))) = lit ''ethanol''"
    by (simp add: plain_def ethanol_world_def eth_strip)
  have h6: "lit ''ethanol'' \<noteq> []" "9 \<notin> set (lit ''ethanol'')" "10 \<notin> set (lit ''ethanol'')"
    by (simp_all add: lit_def)
  have h7: "strip ethanol_world (resp_text (plain 200 (lit ''CCO'' @ [10]))) = lit ''CCO''"
    by (simp add: plain_def ethanol_world_def eth_strip)
  have h8: "lit ''CCO'' \<noteq> []" "9 \<notin> set (lit ''CCO'')" "10 \<notin> set (lit ''CCO'')"
    by (simp_all add: lit_def)
  have h9: "list_all (encodable ethanol_world) (lit ''64-17-5'' @ lit ''ethanol'' @ lit ''CCO'')"
    by (simp add: encodable_def lit_def)
  have h10: "fst (get_compound_info unreachable_world (lit ''ethanol'') init_state) = fallback"
    by (rule fst_get_compound_info_raised [of _ _ _ RequestException])
      (simp add: try_body_cid_raises [OF unreachable_cid])
  note t = main_prints_three_fields [OF h1 h2 h3 h4 h5 h6 h7 h8 h9,
      where prog = script and others = "[]" and w' = unreachable_world
        and compound_name' = "lit ''ethanol''" and prog' = script and others' = "[]"]
  note t3 = conjunct2 [OF conjunct2 [OF t], rule_format, OF h10]
  show ?thesis
    by (intro conjI h1 h2 h3 h4 h5 h6 h7 h8 h9 h10 conjunct1 [OF t] conjunct1 [OF conjunct2 [OF t]]
        conjunct1 [OF t3] conjunct2 [OF t3])
qed

text \<open>
  C6 as it was stated asks for three non-empty fields whenever the four endpoints
  succeed. When the third endpoint answers with status 200 and an empty line, the second
  field is empty.
\<close>

theorem blank_iupac_gives_empty_field:
  "fst (get_cid blank_iupac_world (lit ''ethanol'') init_state) = Inr (JInt 702) \<and>
   fst (get_cas blank_iupac_world (JInt 702)
          (snd (get_cid blank_iupac_world (lit ''ethanol'') init_state))) = Inr (lit ''64-17-5'') \<and>
   http_get blank_iupac_world [cid_url (lit ''ethanol''), synonyms_url blank_iupac_world (JInt 702)]
     (iupac_url blank_iupac_world (JInt 702)) = Returns (plain 200 [10]) \<and>
   http_get blank_iupac_world [cid_url (lit ''ethanol''), synonyms_url blank_iupac_world (JInt 702),
       iupac_url blank_iupac_world (JInt 702)]
     (smiles_url blank_iupac_world (JInt 702)) = Returns (plain 200 (lit ''CCO'' @ [10])) \<and>
   stdout (main blank_iupac_world [script, lit ''ethanol'']) =
     lit ''64-17-5'' @ [9] @ [] @ [9] @ lit ''CCO'' @ [10] \<and>
   split_on 9 (lit ''64-17-5'' @ [9] @ [] @ [9] @ lit ''CCO'') = [lit ''64-17-5'', [], lit ''CCO'']"
proof -
  have "fst (try_body blank_iupac_world (lit ''ethanol'') init_state) =
     Inr (lit ''64-17-5'' @ [9] @ [] @ [9] @ lit ''CCO'')"
    unfolding blank_iupac_world_def
    by (simp add: try_body_returns [OF eth_cid eth_cas_found eth_get(3) eth_get(4)]
        plain_def eth_strip)
  then have line: "fst (get_compound_info blank_iupac_world (lit ''ethanol'') init_state) =
     lit ''64-17-5'' @ [9] @ [] @ [9] @ lit ''CCO''"
    by (rule fst_get_compound_info_returned)
  have "list_all (encodable blank_iupac_world) (lit ''64-17-5'' @ [9] @ [] @ [9] @ lit ''CCO'')"
    by (simp add: encodable_def lit_def)
  then have "stdout (main blank_iupac_world [script, lit ''ethanol'']) =
     lit ''64-17-5'' @ [9] @ [] @ [9] @ lit ''CCO'' @ [10]"
    using main_prints [of blank_iupac_world "lit ''ethanol''" script "[]"]
    by (simp add: line)
  moreover have "split_on 9 (lit ''64-17-5'' @ [9] @ [] @ [9] @ lit ''CCO'') =
      [lit ''64-17-5'', [], lit ''CCO'']"
    by (simp add: lit_def)
  ultimately show ?thesis
    unfolding blank_iupac_world_def
    by (simp only: eth_cid eth_cas_found eth_get)
qed

text \<open>
  The further conditions of the amended statement are needed as well: a tab inside the
  text of the third endpoint gives four fields, a line feed gives two lines, and a
  character that standard output cannot encode makes \<^verbatim>\<open>print\<close> raise, so that
  nothing is printed and the exit code is 1.
\<close>

lemma tab_in_body_gives_four_fields:
  "split_on 9 (fst (get_compound_info tab_iupac_world (lit ''ethanol'') init_state)) =
     [lit ''64-17-5'', lit ''eth'', lit ''anol'', lit ''CCO'']"
proof -
  have "fst (try_body tab_iupac_world (lit ''ethanol'') init_state) =
     Inr (lit ''64-17-5'' @ [9] @ (lit ''eth'' @ [9] @ lit ''anol'') @ [9] @ lit ''CCO'')"
    unfolding tab_iupac_world_def
    by (simp add: try_body_returns [OF eth_cid eth_cas_found eth_get(3) eth_get(4)]
        plain_def eth_strip)
  then show ?thesis
    by (simp add: fst_get_compound_info_returned) (simp add: lit_def)
qed

lemma line_feed_in_body_gives_two_lines:
  "stdout (main two_line_iupac_world [script, lit ''ethanol'']) =
     lit ''64-17-5'' @ [9] @ lit ''eth'' @ [10] @ lit ''anol'' @ [9] @ lit ''CCO'' @ [10]"
proof -
  have "fst (try_body two_line_iupac_world (lit ''ethanol'') init_state) =
     Inr (lit ''64-17-5'' @ [9] @ (lit ''eth'' @ [10] @ lit ''anol'') @ [9] @ lit ''CCO'')"
    unfolding two_line_iupac_world_def
    by (simp add: try_body_returns [OF eth_cid eth_cas_found eth_get(3) eth_get(4)]
        plain_def eth_strip)
  then have line: "fst (get_compound_info two_line_iupac_world (lit ''ethanol'') init_state) =
     lit ''64-17-5'' @ [9] @ (lit ''eth'' @ [10] @ lit ''anol'') @ [9] @ lit ''CCO''"
    by (rule fst_get_compound_info_returned)
  have "list_all (encodable two_line_iupac_world)
      (lit ''64-17-5'' @ [9] @ (lit ''eth'' @ [10] @ lit ''anol'') @ [9] @ lit ''CCO'')"
    by (simp add: encodable_def lit_def)
  then show ?thesis
    using main_prints [of two_line_iupac_world "lit ''ethanol''" script "[]"]
    by (simp add: line)
qed

lemma surrogate_in_body_exits_with_1:
  "fst (get_compound_info surrogate_iupac_world (lit ''ethanol'') init_state) =
     lit ''64-17-5'' @ [9] @ lit ''eth'' @ [55296] @ [9] @ lit ''CCO'' \<and>
   stdout (main surrogate_iupac_world [script, lit ''ethanol'']) = [] \<and>
   exit_code (main surrogate_iupac_world [script, lit ''ethanol'']) = 1"
proof -
  have "fst (try_body surrogate_iupac_world (lit ''ethanol'') init_state) =
     Inr (lit ''64-17-5'' @ [9] @ (lit ''eth'' @ [55296]) @ [9] @ lit ''CCO'')"
    unfolding surrogate_iupac_world_def
    by (simp add: try_body_returns [OF eth_cid eth_cas_found eth_get(3) eth_get(4)]
        plain_def eth_strip)
  then have line: "fst (get_compound_info surrogate_iupac_world (lit ''ethanol'') init_state) =
     lit ''64-17-5'' @ [9] @ (lit ''eth'' @ [55296]) @ [9] @ lit ''CCO''"
    by (rule fst_get_compound_info_returned)
  have "\<not> encodable surrogate_iupac_world 55296"
    by (simp add: encodable_def surrogate_iupac_world_def ethanol_serving_def serving_def)
  then have "\<not> list_all (encodable surrogate_iupac_world)
      (lit ''64-17-5'' @ [9] @ (lit ''eth'' @ [55296]) @ [9] @ lit ''CCO'')"
    by simp
  then show ?thesis
    using main_print_raises [of surrogate_iupac_world "lit ''ethanol''" script "[]"]
    by (simp add: line)
qed

text \<open>
  C7. With no argument on the command line the script prints the usage message, exits
  with code 1 and makes no request.
\<close>

theorem no_argument_prints_usage:
  assumes "length argv < 2"
  shows "stdout (main w argv) = usage @ [10] \<and> exit_code (main w argv) = 1 \<and>
         requests_made (final (main w argv)) = []"
  using assms by (simp add: main_def py_print_usage init_state_def)

theorem no_argument_prints_usage_witness:
  "length [script] < 2 \<and> stdout (main ethanol_world [script]) = usage @ [10] \<and>
   exit_code (main ethanol_world [script]) = 1 \<and>
   requests_made (final (main ethanol_world [script])) = []"
  using no_argument_prints_usage [of "[script]" ethanol_world] by simp


text \<open>
  C8. The URL of the first request is the base URL, then \<^verbatim>\<open>/compound/name/\<close>, then the
  name as it was given, then \<^verbatim>\<open>/cids/JSON\<close>.
\<close>

theorem first_request_url:
  "\<exists>rest. requests_made (snd (get_compound_info w compound_name st)) =
     requests_made st @
       (lit ''https://pubchem.ncbi.nlm.nih.gov/rest/pug'' @ lit ''/compound/name/'' @
        compound_name @ lit ''/cids/JSON'') # rest"
proof (cases "fst (get_cid w compound_name st)")
  case (Inl e)
  then show ?thesis
    by (simp add: requests_get_compound_info try_body_cid_raises cid_url_def base_url_def)
next
  case (Inr cid)
  from requests_after_cid [OF this] show ?thesis
    by (auto simp: requests_get_compound_info cid_url_def base_url_def)
qed

text \<open>
  C9. The registry number is the text before the first tab of the returned string. When
  it is not \<^verbatim>\<open>"Not found"\<close>, all its characters are digits or hyphens and one at least
  is a digit. A synonym that is empty or made of hyphens only is never taken:
  \<^verbatim>\<open>isdigit\<close> is false on the empty string, and the scan goes on to the next synonym.
\<close>

theorem registry_number_digits_and_hyphens:
  "(takeWhile (\<lambda>c. c \<noteq> 9) (fst (get_compound_info w compound_name st)) = field \<and>
    field \<noteq> lit ''Not found''
    \<longrightarrow> (\<forall>c \<in> set field. isdigit_cp w c \<or> c = 45) \<and> (\<exists>c \<in> set field. isdigit_cp w c)) \<and>
   (set s \<subseteq> {45}
    \<longrightarrow> \<not> isdigit w (replace_hyphen s) \<and> next_cas w (JStr s # rest) = next_cas w rest)"
proof (intro conjI impI)
  assume "takeWhile (\<lambda>c. c \<noteq> 9) (fst (get_compound_info w compound_name st)) = field \<and>
    field \<noteq> lit ''Not found''"
  then have field: "takeWhile (\<lambda>c. c \<noteq> 9) (fst (get_compound_info w compound_name st)) = field"
    and found: "field \<noteq> not_found"
    by (simp_all add: not_found_def)
  have "(\<forall>c \<in> set field. isdigit_cp w c \<or> c = 45) \<and> (\<exists>c \<in> set field. isdigit_cp w c)"
  proof (cases rule: try_body_cases [of w compound_name st])
    case (cid_raises e)
    with field found show ?thesis
      by (simp add: fst_get_compound_info_raised first_field_fallback try_body_cid_raises)
  next
    case (cas_raises cid e)
    with field found show ?thesis
      by (simp add: fst_get_compound_info_raised first_field_fallback try_body_cas_raises)
  next
    case (iupac_raises cid cas e)
    with field found show ?thesis
      by (simp add: fst_get_compound_info_raised first_field_fallback try_body_iupac_raises)
  next
    case (smiles_raises cid cas r3 e)
    with field found show ?thesis
      by (simp add: fst_get_compound_info_raised first_field_fallback try_body_smiles_raises)
  next
    case (returns cid cas r3 r4)
    note d = get_cas_result [OF returns(2)]
    have "takeWhile (\<lambda>c. c \<noteq> 9)
            (cas @ [9] @ strip w (resp_text r3) @ [9] @ strip w (resp_text r4)) = cas"
      using cas_chars [OF d] by (intro first_field) simp
    with field found have "field = cas" and "cas \<noteq> not_found"
      by (simp_all add: fst_get_compound_info_returned try_body_returns [OF returns])
    with d isdigit_replace_hyphen [of w cas] show ?thesis
      by blast
  qed
  then show "\<forall>c \<in> set field. isdigit_cp w c \<or> c = 45"
    and "\<exists>c \<in> set field. isdigit_cp w c"
    by simp_all
next
  assume hyphens: "set s \<subseteq> {45}"
  then show "\<not> isdigit w (replace_hyphen s)"
    by (rule hyphens_only_no_match)
  then show "next_cas w (JStr s # rest) = next_cas w rest"
    by simp
qed

theorem registry_number_digits_and_hyphens_witness:
  "takeWhile (\<lambda>c. c \<noteq> 9) (fst (get_compound_info ethanol_world (lit ''ethanol'') init_state)) =
     lit ''64-17-5'' \<and>
   lit ''64-17-5'' \<noteq> lit ''Not found'' \<and>
   list_all (\<lambda>c. isdigit_cp ethanol_world c \<or> c = 45) (lit ''64-17-5'') \<and>
   (\<exists>c \<in> set (lit ''64-17-5''). isdigit_cp ethanol_world c) \<and>
   set (lit ''---'') \<subseteq> {45} \<and>
   \<not> isdigit ethanol_world (replace_hyphen (lit ''---'')) \<and>
   next_cas ethanol_world [JStr (lit ''---''), JStr (lit ''64-17-5'')] =
     next_cas ethanol_world [JStr (lit ''64-17-5'')]"
proof -
  have "fst (try_body ethanol_world (lit ''ethanol'') init_state) =
     Inr (lit ''64-17-5'' @ [9] @ lit ''ethanol'' @ [9] @ lit ''CCO'')"
    unfolding ethanol_world_def
    by (simp add: try_body_returns [OF eth_cid eth_cas_found eth_get(3) eth_get(4)]
        plain_def eth_strip)
  then have "fst (get_compound_info ethanol_world (lit ''ethanol'') init_state) =
     lit ''64-17-5'' @ [9] @ lit ''ethanol'' @ [9] @ lit ''CCO''"
    by (rule fst_get_compound_info_returned)
  then have h1: "takeWhile (\<lambda>c. c \<noteq> 9)
      (fst (get_compound_info ethanol_world (lit ''ethanol'') init_state)) = lit ''64-17-5''"
    by (simp add: lit_def)
  have h2: "lit ''64-17-5'' \<noteq> lit ''Not found''"
    by (simp add: lit_def)
  have h3: "set (lit ''---'') \<subseteq> {45}"
    by (simp add: lit_def)
  note a = conjunct1 [OF registry_number_digits_and_hyphens
      [where w = ethanol_world and compound_name = "lit ''ethanol''" and st = init_state
         and field = "lit ''64-17-5''"], rule_format, OF conjI [OF h1 h2]]
  note b = conjunct2 [OF registry_number_digits_and_hyphens
      [where w = ethanol_world and s = "lit ''---''" and rest = "[JStr (lit ''64-17-5'')]"],
      rule_format, OF h3]
  from conjunct1 [OF a]
  have a1: "list_all (\<lambda>c. isdigit_cp ethanol_world c \<or> c = 45) (lit ''64-17-5'')"
    by (simp only: list_all_iff)
  show ?thesis
    by (intro conjI h1 h2 h3 a1 conjunct2 [OF a] conjunct1 [OF b] conjunct2 [OF b])
qed



end
